theory Spec2Isabelle
  imports Main "HOL-Library.Sublist" "HOL-Library.Word"
begin

unbundle bit_operations_syntax

section \<open>Python strings\<close>

text \<open>
  A Python \<open>str\<close> is modelled as a \<open>string\<close> whose characters are the code points
  0..255, so \<open>length\<close> is Python's \<open>len\<close> on such text. Every command word, separator
  and digit that joy.py inspects lies in that range. Text with code points above 255 is
  outside the model.
\<close>

definition isspace :: "char \<Rightarrow> bool" where
  \<comment> \<open>\<open>str.isspace\<close> on the code points below 256\<close>
  "isspace c = (of_char c \<in> {9, 10, 11, 12, 13, 28, 29, 30, 31, 32, 133, 160 :: int})"

definition strip :: "string \<Rightarrow> string" where
  \<comment> \<open>\<open>s.strip()\<close>\<close>
  "strip s = rev (dropWhile isspace (rev (dropWhile isspace s)))"

definition startswith :: "string \<Rightarrow> string \<Rightarrow> bool" where
  \<comment> \<open>\<open>s.startswith(p)\<close>\<close>
  "startswith s p = prefix p s"

function replace :: "string \<Rightarrow> string \<Rightarrow> string \<Rightarrow> string" where
  \<comment> \<open>\<open>s.replace(old, new)\<close>: every non-overlapping occurrence, left to right\<close>
  "replace s old new =
     (if old = [] then new @ concat (map (\<lambda>c. c # new) s)
      else if s = [] then []
      else if prefix old s then new @ replace (drop (length old) s) old new
      else hd s # replace (tl s) old new)"
  by pat_completeness auto
termination
  by (relation "measure (\<lambda>(s, old, new). length s)") (auto simp: neq_Nil_conv)

declare replace.simps [simp del]

fun split :: "string \<Rightarrow> char \<Rightarrow> string list" where
  \<comment> \<open>\<open>s.split(sep)\<close> for a one-character separator; never the empty list\<close>
  "split [] sep = [[]]"
| "split (c # cs) sep =
     (if c = sep then [] # split cs sep
      else (case split cs sep of w # ws \<Rightarrow> (c # w) # ws | [] \<Rightarrow> [[c]]))"

definition split_ws :: "string \<Rightarrow> string list" where
  \<comment> \<open>\<open>s.split()\<close>: the maximal runs of non-whitespace\<close>
  "split_ws s = filter (\<lambda>w. w \<noteq> []) (foldr (\<lambda>c acc.
       if isspace c then [] # acc
       else (case acc of w # ws \<Rightarrow> (c # w) # ws | [] \<Rightarrow> [[c]])) s [[]])"

fun join :: "string \<Rightarrow> string list \<Rightarrow> string" where
  \<comment> \<open>\<open>sep.join(xs)\<close>\<close>
  "join sep [] = []"
| "join sep [x] = x"
| "join sep (x # y # ys) = x @ sep @ join sep (y # ys)"

definition is_ascii_digit :: "char \<Rightarrow> bool" where
  "is_ascii_digit c = (48 \<le> (of_char c :: int) \<and> (of_char c :: int) \<le> 57)"


definition digit_val :: "char \<Rightarrow> int" where
  "digit_val c = of_char c - 48"

fun int_literal :: "string \<Rightarrow> bool" where
  \<comment> \<open>digits, with single underscores allowed between two digits\<close>
  "int_literal [] = False"
| "int_literal [c] = is_ascii_digit c"
| "int_literal (c # d # ds) =
     (is_ascii_digit c \<and> (if d = CHR ''_'' then int_literal ds else int_literal (d # ds)))"

definition decimal :: "string \<Rightarrow> int" where
  "decimal ds = foldl (\<lambda>acc c. 10 * acc + digit_val c) 0 (filter is_ascii_digit ds)"

datatype error =
    IndexError | KeyError | TypeError | ValueError | AttributeError | NameError
  | OSError | RuntimeError | RequestException | APIError

definition py_int :: "string \<Rightarrow> error + int" where
  \<comment> \<open>\<open>int(s)\<close>: surrounding whitespace, an optional sign, a decimal literal. The
      interpreter's limit of 4300 digits lies beyond the 4096 characters of a message.\<close>
  "py_int s =
     (let t = strip s;
          neg = (t \<noteq> [] \<and> hd t = CHR ''-'');
          body = (if t \<noteq> [] \<and> (hd t = CHR ''-'' \<or> hd t = CHR ''+'') then tl t else t)
      in if int_literal body then Inr (if neg then - decimal body else decimal body)
         else Inl ValueError)"

function str_digits :: "int \<Rightarrow> string" where
  \<comment> \<open>the decimal digits of a number that is not negative\<close>
  "str_digits n =
     (if n < 10 then [char_of (48 + n)]
      else str_digits (n div 10) @ [char_of (48 + n mod 10)])"
  by pat_completeness auto
termination
  by (relation "measure nat") auto

declare str_digits.simps [simp del]

definition str_int :: "int \<Rightarrow> string" where
  \<comment> \<open>\<open>str(i)\<close> and \<open>f"{i}"\<close>\<close>
  "str_int i = (if i < 0 then CHR ''-'' # str_digits (- i) else str_digits i)"

section \<open>User store\<close>

record profile =
  resume :: string
  search_keywords :: "string list"
  search_location :: string
  min_match_score :: int
  jobs_sent :: "string list"
  notification_time :: string
  is_active :: bool
  last_activity :: string
  welcomed :: bool

text \<open>
  The trace lists what the bot does to the outside world, oldest first: messages handed
  to Telegram, writes of the user file, error log lines, pauses, threads started. Two
  further entries mark steps inside the process from which the order of a run is read:
  the assignment of \<open>last_update_id\<close> and the call of \<open>get_match_score\<close>
  (with the id of the posting).
\<close>

datatype task = JobsFor int | AnalysisFor int

datatype event =
    Sent int string "string option"
  | Saved
  | Logged string error
  | Slept
  | Started task
  | OffsetSet int
  | Scoring string

record bot =
  users :: "string \<rightharpoonup> profile"
  last_update_id :: "int option"
  trace :: "event list"

definition emit :: "event \<Rightarrow> bot \<Rightarrow> bot" where
  "emit e s = s\<lparr>trace := trace s @ [e]\<rparr>"

definition save_users :: "bot \<Rightarrow> bot" where
  \<comment> \<open>the whole map is written; a failed write is caught and logged inside\<close>
  "save_users s = emit Saved s"

definition send_message :: "int \<Rightarrow> string \<Rightarrow> string option \<Rightarrow> bot \<Rightarrow> bot" where
  \<comment> \<open>a failed post is caught and logged inside; nothing is raised\<close>
  "send_message chat_id text parse_mode s = emit (Sent chat_id text parse_mode) s"

definition default_profile :: "string \<Rightarrow> profile" where
  "default_profile now =
     \<lparr>resume = '''', search_keywords = [''AI Engineer''], search_location = ''India'',
      min_match_score = 70, jobs_sent = [], notification_time = ''09:00'',
      is_active = True, last_activity = now, welcomed = True\<rparr>"

definition register_user :: "string \<Rightarrow> int \<Rightarrow> bot \<Rightarrow> bool \<times> bot" where
  "register_user now chat_id s =
     (let chat_id_str = str_int chat_id
      in if users s chat_id_str = None
         then (True, save_users (s\<lparr>users := (users s)(chat_id_str \<mapsto> default_profile now)\<rparr>))
         else (False, s))"

definition set_resume :: "string \<Rightarrow> int \<Rightarrow> string \<Rightarrow> bot \<Rightarrow> bool \<times> bot" where
  "set_resume now chat_id resume_text s =
     (let chat_id_str = str_int chat_id
      in case users s chat_id_str of
           Some p \<Rightarrow>
             (True, save_users (s\<lparr>users := (users s)(chat_id_str \<mapsto>
                       p\<lparr>resume := resume_text, last_activity := now\<rparr>)\<rparr>))
         | None \<Rightarrow> (False, s))"

definition set_search_preferences ::
  "string \<Rightarrow> int \<Rightarrow> string list option \<Rightarrow> string option \<Rightarrow> int option \<Rightarrow> string option \<Rightarrow>
   bot \<Rightarrow> bool \<times> bot" where
  "set_search_preferences now chat_id keywords location min_score notif_time s =
     (let chat_id_str = str_int chat_id
      in case users s chat_id_str of
           Some p \<Rightarrow>
             (let p1 = (case keywords of Some k \<Rightarrow> p\<lparr>search_keywords := k\<rparr> | None \<Rightarrow> p);
                  p2 = (case location of Some l \<Rightarrow> p1\<lparr>search_location := l\<rparr> | None \<Rightarrow> p1);
                  p3 = (case min_score of Some m \<Rightarrow> p2\<lparr>min_match_score := m\<rparr> | None \<Rightarrow> p2);
                  p4 = (case notif_time of Some t \<Rightarrow> p3\<lparr>notification_time := t\<rparr> | None \<Rightarrow> p3)
              in (True, save_users (s\<lparr>users := (users s)(chat_id_str \<mapsto>
                          p4\<lparr>last_activity := now\<rparr>)\<rparr>)))
         | None \<Rightarrow> (False, s))"

section \<open>Message texts\<close>

text \<open>
  The pictographs in the bot's own replies are code points above 255. Each is a named
  constant that stands for the character (its UTF-8 bytes); no function of the model
  looks inside one.
\<close>

definition nl :: string where "nl = [CHR 0x0A]"
definition check_mark :: string where "check_mark = [CHR 0xE2, CHR 0x9C, CHR 0x85]"
definition cross_mark :: string where "cross_mark = [CHR 0xE2, CHR 0x9D, CHR 0x8C]"
definition magnifier :: string where "magnifier = [CHR 0xF0, CHR 0x9F, CHR 0x94, CHR 0x8D]"
definition rocket :: string where "rocket = [CHR 0xF0, CHR 0x9F, CHR 0x9A, CHR 0x80]"
definition clipboard :: string where "clipboard = [CHR 0xF0, CHR 0x9F, CHR 0x93, CHR 0x8B]"
definition waving_hand :: string where "waving_hand = [CHR 0xF0, CHR 0x9F, CHR 0x91, CHR 0x8B]"
definition keycap :: string where
  "keycap = [CHR 0xEF, CHR 0xB8, CHR 0x8F, CHR 0xE2, CHR 0x83, CHR 0xA3]"
definition robot_face :: string where "robot_face = [CHR 0xF0, CHR 0x9F, CHR 0xA4, CHR 0x96]"
definition pause_sign :: string where
  "pause_sign = [CHR 0xE2, CHR 0x8F, CHR 0xB8, CHR 0xEF, CHR 0xB8, CHR 0x8F]"
definition play_sign :: string where
  "play_sign = [CHR 0xE2, CHR 0x96, CHR 0xB6, CHR 0xEF, CHR 0xB8, CHR 0x8F]"
definition pushpin :: string where "pushpin = [CHR 0xF0, CHR 0x9F, CHR 0x93, CHR 0x8C]"
definition office_building :: string where
  "office_building = [CHR 0xF0, CHR 0x9F, CHR 0x8F, CHR 0xA2]"
definition round_pushpin :: string where
  "round_pushpin = [CHR 0xF0, CHR 0x9F, CHR 0x93, CHR 0x8D]"
definition globe :: string where "globe = [CHR 0xF0, CHR 0x9F, CHR 0x8C, CHR 0x90]"
definition bar_chart :: string where "bar_chart = [CHR 0xF0, CHR 0x9F, CHR 0x93, CHR 0x8A]"
definition link_symbol :: string where "link_symbol = [CHR 0xF0, CHR 0x9F, CHR 0x94, CHR 0x97]"

definition resume_received_msg :: string where
  "resume_received_msg =
     check_mark @ '' Resume received! I'll start sending job matches based on your profile.''"

definition resume_save_failed_msg :: string where
  "resume_save_failed_msg = cross_mark @ '' Failed to save your resume. Please try again.''"

definition download_failed_msg :: string where
  "download_failed_msg = cross_mark @ '' Failed to download the PDF.''"

definition document_error_msg :: string where
  "document_error_msg = cross_mark @ '' Something went wrong processing your document.''"

definition unable_to_extract :: string where
  "unable_to_extract = cross_mark @ '' Unable to extract text.''"

definition error_reading_pdf :: string where
  "error_reading_pdf = cross_mark @ '' Error reading PDF.''"

definition preferences_prompt :: string where
  "preferences_prompt =
     magnifier @ '' Let's customize your job search!'' @ nl @ nl @
     ''Please send your preferences in this format:'' @ nl @
     ''/preferences [job titles] | [location] | [minimum match %] | [notification time]'' @
     nl @ nl @
     ''Example: /preferences Data Scientist, ML Engineer | New York | 75 | 08:00'' @ nl @ nl @
     ''Or you can set them individually:'' @ nl @
     ''/keywords Data Scientist, ML Engineer'' @ nl @
     ''/location New York'' @ nl @
     ''/score 75'' @ nl @
     ''/time 08:00''"

definition resume_request :: string where
  "resume_request = rocket @ '' Please send your resume (as a PDF) so I can match jobs for you!''"



definition no_new_jobs_msg :: string where
  "no_new_jobs_msg = magnifier @ '' No new job matches found today. I'll keep searching!''"

definition welcome_msg :: string where
  "welcome_msg =
     waving_hand @ '' Welcome to JobMatchBot!'' @ nl @ nl @
     ''I'll help you find jobs that match your profile. To get started:'' @ nl @
     ''1'' @ keycap @ '' Send me your resume as a PDF file'' @ nl @
     ''2'' @ keycap @ '' I'll ask you for job search preferences'' @ nl @
     ''3'' @ keycap @ '' I'll send you daily job matches with AI-powered match scores'' @
     nl @ nl @
     ''Type /help anytime to see available commands.''"

definition help_msg :: string where
  "help_msg =
     robot_face @ '' *JobMatchBot Commands* '' @ robot_face @ nl @ nl @
     ''/start - Start or restart the bot'' @ nl @
     ''/preferences - Set all preferences at once'' @ nl @
     ''/keywords [job titles] - Set job search keywords'' @ nl @
     ''/location [place] - Set job search location'' @ nl @
     ''/score [number] - Set minimum match score'' @ nl @
     ''/time [HH:MM] - Set daily notification time'' @ nl @
     ''/jobs - Get jobs immediately'' @ nl @
     ''/analyze - Get resume analysis and improvement suggestions'' @ nl @
     ''/pause - Pause daily notifications'' @ nl @
     ''/resume - Resume daily notifications'' @ nl @
     ''/status - Check your current settings''"

definition preferences_updated_msg :: string where
  "preferences_updated_msg = check_mark @ '' Your job search preferences have been updated!''"

definition preferences_invalid_msg :: string where
  "preferences_invalid_msg =
     cross_mark @ '' Invalid format. Please use: '' @
     ''/preferences [keywords] | [location] | [score] | [time]''"

definition keywords_updated_msg :: "string list \<Rightarrow> string" where
  "keywords_updated_msg keywords =
     check_mark @ '' Job search keywords updated to: '' @ join '', '' keywords"

definition keywords_missing_msg :: string where
  "keywords_missing_msg = cross_mark @ '' Please provide at least one keyword.''"

definition location_updated_msg :: "string \<Rightarrow> string" where
  "location_updated_msg location = check_mark @ '' Job search location updated to: '' @ location"

definition location_missing_msg :: string where
  "location_missing_msg = cross_mark @ '' Please provide a location.''"

definition score_updated_msg :: "int \<Rightarrow> string" where
  "score_updated_msg score =
     check_mark @ '' Minimum match score updated to: '' @ str_int score @ ''%''"

definition score_range_msg :: string where
  "score_range_msg = cross_mark @ '' Score must be between 0 and 100.''"

definition score_invalid_msg :: string where
  "score_invalid_msg = cross_mark @ '' Please enter a valid number.''"

definition time_updated_msg :: "string \<Rightarrow> string" where
  "time_updated_msg time_str =
     check_mark @ '' Daily notification time updated to: '' @ time_str"

definition time_format_msg :: string where
  "time_format_msg = cross_mark @ '' Please enter time in HH:MM format.''"

definition searching_msg :: string where
  "searching_msg =
     magnifier @ '' Searching for jobs matching your profile... This may take a minute.''"

definition analyze_started_msg :: string where
  "analyze_started_msg = clipboard @ '' Analyzing your resume... This may take a minute.''"

definition paused_msg :: string where
  "paused_msg = pause_sign @ '' Job notifications paused. Type /resume to restart.''"

definition resumed_msg :: string where
  "resumed_msg = play_sign @ '' Job notifications resumed!''"

section \<open>The outside world\<close>

text \<open>
  Everything the bot reads from outside is a field of \<open>env\<close>; a call that can raise
  returns \<open>Inl\<close> of the exception.
  \<^item> \<open>clock\<close>: \<open>datetime.now().isoformat()\<close>, taken as fixed during one call;
  \<^item> \<open>hash_secret\<close>: the two 64-bit keys of the interpreter's string hash, drawn once
    per process;
  \<^item> \<open>linkedin_get\<close>, \<open>indeed_get\<close>: \<open>requests.get\<close> on a search URL, giving the
    status code and the cards that \<open>soup.select\<close> finds in the page;
  \<^item> \<open>completion\<close>: \<open>client.chat.completions.create(...).choices[0].message.content\<close>
    for a prompt;
  \<^item> \<open>get_file\<close>: Telegram's getFile for a file id, \<open>None\<close> when the answer has no
    \<open>"result"\<close>, else the file path;
  \<^item> \<open>download\<close>: the status code and content of the file at a path;
  \<^item> \<open>write_pdf\<close>: writing the content to \<open>resumes/resume_<chat_id>.pdf\<close>;
  \<^item> \<open>pdf_pages\<close>: the text of each page that PyMuPDF reads from that content;
  \<^item> \<open>get_updates\<close>: Telegram's getUpdates for an offset (\<open>None\<close> when the URL
    carries none): the request or the JSON decoding raises, or the answer has no
    \<open>"result"\<close> (\<open>None\<close>), or it is the list of updates. An update is the
    \<open>update_id\<close> and, when present, the message with its chat id and its document's
    file id or its text.
\<close>

record li_card =
  li_h3 :: "string option"
  li_h4 :: "string option"
  li_location :: "string option"
  li_a :: "string option option"

record indeed_card =
  in_h2a :: "(string \<times> string option) option"
  in_company :: "string option"
  in_location :: "string option"

record tg_message =
  msg_chat :: int
  msg_document :: "string option"
  msg_text :: "string option"

record tg_update =
  update_id :: int
  message :: "tg_message option"

record env =
  clock :: string
  hash_secret :: "64 word \<times> 64 word"
  linkedin_get :: "string \<Rightarrow> error + int \<times> li_card list"
  indeed_get :: "string \<Rightarrow> error + int \<times> indeed_card list"
  completion :: "string \<Rightarrow> error + string"
  get_file :: "string \<Rightarrow> error + string option"
  download :: "string \<Rightarrow> error + int \<times> string"
  write_pdf :: "int \<Rightarrow> string \<Rightarrow> error option"
  pdf_pages :: "string \<Rightarrow> error + string list"
  get_updates :: "int option \<Rightarrow> error + tg_update list option"

section \<open>Resume upload\<close>

definition extract_text_from_pdf :: "env \<Rightarrow> string \<Rightarrow> bot \<Rightarrow> string \<times> bot" where
  "extract_text_from_pdf env pdf s =
     (case pdf_pages env pdf of
        Inl e \<Rightarrow> (error_reading_pdf, emit (Logged ''PDF extraction error'' e) s)
      | Inr pages \<Rightarrow>
          (let text = join nl pages
           in (if text \<noteq> [] then strip text else unable_to_extract, s)))"

definition ask_for_preferences :: "int \<Rightarrow> bot \<Rightarrow> bot" where
  "ask_for_preferences chat_id s = send_message chat_id preferences_prompt None s"

definition ask_for_resume :: "int \<Rightarrow> bot \<Rightarrow> bot" where
  "ask_for_resume chat_id s = send_message chat_id resume_request None s"

definition handle_document :: "env \<Rightarrow> string \<Rightarrow> int \<Rightarrow> bot \<Rightarrow> bot" where
  "handle_document env file_id chat_id s =
     (let failed = (\<lambda>e t. send_message chat_id document_error_msg None
                              (emit (Logged ''Error handling document'' e) t))
      in case get_file env file_id of
           Inl e \<Rightarrow> failed e s
         | Inr None \<Rightarrow> s
         | Inr (Some file_path) \<Rightarrow>
             (case download env file_path of
                Inl e \<Rightarrow> failed e s
              | Inr (status_code, content) \<Rightarrow>
                  if status_code = 200 then
                    (case write_pdf env chat_id content of
                       Some e \<Rightarrow> failed e s
                     | None \<Rightarrow>
                         (let (resume_text, s1) = extract_text_from_pdf env content s;
                              (ok, s2) = set_resume (clock env) chat_id resume_text s1
                          in if ok
                             then ask_for_preferences chat_id
                                    (send_message chat_id resume_received_msg None s2)
                             else send_message chat_id resume_save_failed_msg None s2))
                  else send_message chat_id download_failed_msg None s))"

section \<open>Commands\<close>

definition cmd_start :: "env \<Rightarrow> string \<Rightarrow> int \<Rightarrow> bool \<Rightarrow> bot \<Rightarrow> bot" where
  "cmd_start env text chat_id skip_welcome s =
     (let (is_new_user, s1) = register_user (clock env) chat_id s
      in if \<not> skip_welcome \<and> (is_new_user \<or> text = ''/start'')
         then ask_for_resume chat_id (send_message chat_id welcome_msg None s1)
         else s1)"

definition cmd_preferences :: "env \<Rightarrow> string \<Rightarrow> int \<Rightarrow> bot \<Rightarrow> bot" where
  \<comment> \<open>\<open>int\<close> is the only call of the try block that can raise, and it comes before the update\<close>
  "cmd_preferences env text chat_id s =
     (let parts = split (strip (replace text ''/preferences'' '''')) (CHR ''|'')
      in if length parts \<ge> 4 then
           (let keywords = map strip (split (parts ! 0) (CHR '',''));
                location = strip (parts ! 1)
            in case py_int (strip (parts ! 2)) of
                 Inl e \<Rightarrow>
                   send_message chat_id preferences_invalid_msg None
                     (emit (Logged ''Error parsing preferences'' e) s)
               | Inr min_score \<Rightarrow>
                   (let notif_time = strip (parts ! 3);
                        (ok, s1) = set_search_preferences (clock env) chat_id
                                     (Some keywords) (Some location) (Some min_score)
                                     (Some notif_time) s
                    in send_message chat_id preferences_updated_msg None s1))
         else ask_for_preferences chat_id s)"

definition cmd_keywords :: "env \<Rightarrow> string \<Rightarrow> int \<Rightarrow> bot \<Rightarrow> bot" where
  "cmd_keywords env text chat_id s =
     (let keywords = map strip (split (strip (replace text ''/keywords'' '''')) (CHR '',''))
      in if keywords \<noteq> [] \<and> hd keywords \<noteq> [] then
           (let (ok, s1) = set_search_preferences (clock env) chat_id
                             (Some keywords) None None None s
            in send_message chat_id (keywords_updated_msg keywords) None s1)
         else send_message chat_id keywords_missing_msg None s)"

definition cmd_location :: "env \<Rightarrow> string \<Rightarrow> int \<Rightarrow> bot \<Rightarrow> bot" where
  "cmd_location env text chat_id s =
     (let location = strip (replace text ''/location'' '''')
      in if location \<noteq> [] then
           (let (ok, s1) = set_search_preferences (clock env) chat_id
                             None (Some location) None None s
            in send_message chat_id (location_updated_msg location) None s1)
         else send_message chat_id location_missing_msg None s)"

definition cmd_score :: "env \<Rightarrow> string \<Rightarrow> int \<Rightarrow> bot \<Rightarrow> bot" where
  "cmd_score env text chat_id s =
     (case py_int (strip (replace text ''/score'' '''')) of
        Inl e \<Rightarrow> send_message chat_id score_invalid_msg None s
      | Inr score \<Rightarrow>
          if 0 \<le> score \<and> score \<le> 100 then
            (let (ok, s1) = set_search_preferences (clock env) chat_id
                              None None (Some score) None s
             in send_message chat_id (score_updated_msg score) None s1)
          else send_message chat_id score_range_msg None s)"

definition cmd_time :: "env \<Rightarrow> string \<Rightarrow> int \<Rightarrow> bot \<Rightarrow> bot" where
  "cmd_time env text chat_id s =
     (let time_str = strip (replace text ''/time'' '''')
      in if time_str \<noteq> [] \<and> length time_str = 5 \<and> CHR '':'' \<in> set time_str then
           (let (ok, s1) = set_search_preferences (clock env) chat_id
                             None None None (Some time_str) s
            in send_message chat_id (time_updated_msg time_str) None s1)
         else send_message chat_id time_format_msg None s)"

definition set_active :: "int \<Rightarrow> bool \<Rightarrow> string \<Rightarrow> bot \<Rightarrow> bot" where
  \<comment> \<open>the body shared by the /pause and /resume branches\<close>
  "set_active chat_id flag reply s =
     (let chat_id_str = str_int chat_id
      in case users s chat_id_str of
           Some p \<Rightarrow>
             send_message chat_id reply None
               (save_users (s\<lparr>users := (users s)(chat_id_str \<mapsto> p\<lparr>is_active := flag\<rparr>)\<rparr>))
         | None \<Rightarrow> s)"

definition parse_command :: "env \<Rightarrow> string \<Rightarrow> int \<Rightarrow> bool \<Rightarrow> bot \<Rightarrow> bot" where
  \<comment> \<open>/jobs and /analyze start a thread and return; /extract does nothing\<close>
  "parse_command env text0 chat_id skip_welcome s =
     (let text = strip text0
      in if startswith text ''/start'' then cmd_start env text chat_id skip_welcome s
         else if startswith text ''/help'' then send_message chat_id help_msg (Some ''Markdown'') s
         else if startswith text ''/preferences'' then cmd_preferences env text chat_id s
         else if startswith text ''/keywords'' then cmd_keywords env text chat_id s
         else if startswith text ''/location'' then cmd_location env text chat_id s
         else if startswith text ''/score'' then cmd_score env text chat_id s
         else if startswith text ''/time'' then cmd_time env text chat_id s
         else if startswith text ''/jobs'' then
           emit (Started (JobsFor chat_id)) (send_message chat_id searching_msg None s)
         else if startswith text ''/analyze'' then
           emit (Started (AnalysisFor chat_id)) (send_message chat_id analyze_started_msg None s)
         else if startswith text ''/pause'' then set_active chat_id False paused_msg s
         else if startswith text ''/resume'' then set_active chat_id True resumed_msg s
         else if startswith text ''/extract'' then s
         else s)"

section \<open>String hashing\<close>

text \<open>
  \<open>hash(s)\<close> on a \<open>str\<close> is CPython's keyed SipHash-1-3 (Python 3.11 and later) of the
  string's bytes, one byte per character for text below code point 256. The two keys are
  the first sixteen bytes of the hash secret, which the interpreter draws at start-up:
  at random by default, from a generator seeded with PYTHONHASHSEED when that is set to
  a number, all zero when it is set to 0. The empty string hashes to 0, and a result of
  -1 is replaced by -2.
\<close>

type_synonym u64 = "64 word"

definition rotate :: "u64 \<Rightarrow> nat \<Rightarrow> u64" where
  "rotate x b = push_bit b x OR drop_bit (64 - b) x"

definition half_round ::
  "nat \<Rightarrow> nat \<Rightarrow> u64 \<times> u64 \<times> u64 \<times> u64 \<Rightarrow> u64 \<times> u64 \<times> u64 \<times> u64" where
  "half_round s t = (\<lambda>(a, b, c, d).
     let a1 = a + b; c1 = c + d; b1 = rotate b s XOR a1; d1 = rotate d t XOR c1
     in (rotate a1 32, b1, c1, d1))"

definition single_round :: "u64 \<times> u64 \<times> u64 \<times> u64 \<Rightarrow> u64 \<times> u64 \<times> u64 \<times> u64" where
  "single_round = (\<lambda>(v0, v1, v2, v3).
     let (v0, v1, v2, v3) = half_round 13 16 (v0, v1, v2, v3);
         (v2, v1, v0, v3) = half_round 17 21 (v2, v1, v0, v3)
     in (v0, v1, v2, v3))"

definition le64 :: "string \<Rightarrow> u64" where
  \<comment> \<open>up to eight bytes read as a little-endian number\<close>
  "le64 bs = foldr (\<lambda>c acc. of_char c + 256 * acc) bs 0"

fun sip_blocks ::
  "nat \<Rightarrow> u64 \<times> u64 \<times> u64 \<times> u64 \<Rightarrow> string \<Rightarrow> u64 \<times> u64 \<times> u64 \<times> u64" where
  \<comment> \<open>the loop over the whole 8-byte blocks\<close>
  "sip_blocks 0 v src = v"
| "sip_blocks (Suc n) (v0, v1, v2, v3) src =
     (let mi = le64 (take 8 src);
          (v0, v1, v2, v3) = single_round (v0, v1, v2, v3 XOR mi)
      in sip_blocks n (v0 XOR mi, v1, v2, v3) (drop 8 src))"

definition siphash13 :: "u64 \<Rightarrow> u64 \<Rightarrow> string \<Rightarrow> u64" where
  "siphash13 k0 k1 src =
     (let b = push_bit 56 (of_nat (length src));
          v = (k0 XOR 0x736f6d6570736575, k1 XOR 0x646f72616e646f6d,
               k0 XOR 0x6c7967656e657261, k1 XOR 0x7465646279746573);
          n = length src div 8;
          (v0, v1, v2, v3) = sip_blocks n v src;
          b = b OR le64 (drop (8 * n) src);
          (v0, v1, v2, v3) = single_round (v0, v1, v2, v3 XOR b);
          (v0, v1, v2, v3) = single_round (v0 XOR b, v1, v2 XOR 0xff, v3);
          (v0, v1, v2, v3) = single_round (v0, v1, v2, v3);
          (v0, v1, v2, v3) = single_round (v0, v1, v2, v3)
      in (v0 XOR v1) XOR (v2 XOR v3))"

definition py_hash :: "u64 \<times> u64 \<Rightarrow> string \<Rightarrow> int" where
  "py_hash secret s =
     (if s = [] then 0
      else (let x = sint (siphash13 (fst secret) (snd secret) s)
            in if x = - 1 then - 2 else x))"

section \<open>Fetching postings\<close>

record job =
  source :: string
  title :: string
  company :: string
  location :: string
  link :: string
  job_id :: string

text \<open>
  A card is what \<open>select_one\<close> finds in it: \<open>None\<close> for a missing element (reading
  \<open>.text\<close> of it raises AttributeError, subscripting it TypeError), and for a link the
  \<open>href\<close> attribute, whose absence raises KeyError. The fields of the dictionary are
  evaluated in the order written.
\<close>

definition linkedin_job :: "env \<Rightarrow> li_card \<Rightarrow> error + job" where
  "linkedin_job env item =
     (case li_h3 item of
        None \<Rightarrow> Inl AttributeError
      | Some h3 \<Rightarrow>
          (case li_h4 item of
             None \<Rightarrow> Inl AttributeError
           | Some h4 \<Rightarrow>
               (case li_location item of
                  None \<Rightarrow> Inl AttributeError
                | Some loc \<Rightarrow>
                    (case li_a item of
                       None \<Rightarrow> Inl TypeError
                     | Some None \<Rightarrow> Inl KeyError
                     | Some (Some href) \<Rightarrow>
                         Inr \<lparr>source = ''LinkedIn'', title = strip h3, company = strip h4,
                              location = strip loc, link = href,
                              job_id = ''li_'' @ str_int (py_hash (hash_secret env) href)\<rparr>))))"

definition indeed_job :: "env \<Rightarrow> indeed_card \<Rightarrow> error + job" where
  "indeed_job env item =
     (case in_h2a item of
        None \<Rightarrow> Inl TypeError
      | Some (text, None) \<Rightarrow> Inl KeyError
      | Some (text, Some href) \<Rightarrow>
          (let jid = ''indeed_'' @ str_int (py_hash (hash_secret env) href)
           in (case in_company item of
                 None \<Rightarrow> Inl AttributeError
               | Some c \<Rightarrow>
                   (case in_location item of
                      None \<Rightarrow> Inl AttributeError
                    | Some loc \<Rightarrow>
                        Inr \<lparr>source = ''Indeed'', title = strip text, company = strip c,
                             location = strip loc, link = ''https://in.indeed.com'' @ href,
                             job_id = jid\<rparr>))))"

definition append_parsed :: "string \<Rightarrow> error + job \<Rightarrow> job list \<times> bot \<Rightarrow> job list \<times> bot" where
  \<comment> \<open>the inner try of either loop: append the posting, or log and go on\<close>
  "append_parsed label r = (\<lambda>(job_list, s).
     case r of Inr j \<Rightarrow> (job_list @ [j], s)
             | Inl e \<Rightarrow> (job_list, emit (Logged label e) s))"

definition keywords_str :: "string \<Rightarrow> string" where
  "keywords_str k = join ''+'' (split_ws (replace k '','' '' ''))"

definition linkedin_url :: "string \<Rightarrow> string \<Rightarrow> string" where
  \<comment> \<open>for the first keyword \<open>k\<close> and the location\<close>
  "linkedin_url k loc =
     ''https://www.linkedin.com/jobs/search/?keywords='' @ keywords_str k @
     ''&location='' @ loc"

definition indeed_url :: "string \<Rightarrow> string \<Rightarrow> string" where
  "indeed_url k loc =
     ''https://in.indeed.com/jobs?q='' @ keywords_str k @ ''&l='' @ replace loc '' '' ''+''"

definition linkedin_block ::
  "env \<Rightarrow> string list \<Rightarrow> string \<Rightarrow> job list \<times> bot \<Rightarrow> (error + unit) \<times> job list \<times> bot" where
  \<comment> \<open>the body of the first outer try\<close>
  "linkedin_block env keywords loc js =
     (case keywords of
        [] \<Rightarrow> (Inl IndexError, js)
      | k # _ \<Rightarrow>
          (case linkedin_get env (linkedin_url k loc) of
             Inl e \<Rightarrow> (Inl e, js)
           | Inr (status_code, cards) \<Rightarrow>
               if status_code = 200
               then (Inr (), foldl (\<lambda>acc item. append_parsed ''LinkedIn parsing error''
                                       (linkedin_job env item) acc) js (take 10 cards))
               else (Inr (), js)))"

definition indeed_block ::
  "env \<Rightarrow> string list \<Rightarrow> string \<Rightarrow> job list \<times> bot \<Rightarrow> (error + unit) \<times> job list \<times> bot" where
  \<comment> \<open>the body of the second outer try\<close>
  "indeed_block env keywords loc js =
     (case keywords of
        [] \<Rightarrow> (Inl IndexError, js)
      | k # _ \<Rightarrow>
          (case indeed_get env (indeed_url k loc) of
             Inl e \<Rightarrow> (Inl e, js)
           | Inr (status_code, cards) \<Rightarrow>
               if status_code = 200
               then (Inr (), foldl (\<lambda>acc item. append_parsed ''Indeed parsing error''
                                       (indeed_job env item) acc) js (take 10 cards))
               else (Inr (), js)))"

definition except_log :: "string \<Rightarrow> (error + unit) \<times> job list \<times> bot \<Rightarrow> job list \<times> bot" where
  \<comment> \<open>\<open>except Exception as e: logger.error(...)\<close> around a block\<close>
  "except_log label = (\<lambda>(r, job_list, s).
     case r of Inl e \<Rightarrow> (job_list, emit (Logged label e) s) | Inr _ \<Rightarrow> (job_list, s))"

definition scrape_jobs :: "env \<Rightarrow> string list \<Rightarrow> string \<Rightarrow> bot \<Rightarrow> (error + job list) \<times> bot" where
  "scrape_jobs env keywords loc s =
     (let js0 = ([], emit Slept s);
          js1 = except_log ''LinkedIn scraping error'' (linkedin_block env keywords loc js0);
          js2 = except_log ''Indeed scraping error'' (indeed_block env keywords loc js1)
      in (Inr (fst js2), snd js2))"

section \<open>Scoring\<close>

record match_result =
  score :: int
  analysis :: string

definition template :: "string list \<Rightarrow> string" where
  \<comment> \<open>a triple-quoted text whose lines sit at the eight-space indentation of the method\<close>
  "template lines = concat (map (\<lambda>l. nl @ ''        '' @ l) lines) @ nl @ ''        ''"

definition match_prompt :: "job \<Rightarrow> string \<Rightarrow> string" where
  "match_prompt job_data resume_text = template
     [''Resume:'',
      take 2000 resume_text @ ''...  # Truncate to avoid token limits'',
      '''',
      ''Job Details:'',
      ''Title: '' @ title job_data,
      ''Company: '' @ company job_data,
      ''Location: '' @ location job_data,
      '''',
      ''Task: Evaluate how well this candidate's profile matches the job.'',
      '''',
      ''Please provide:'',
      ''1. A numerical match score (0-100)'',
      ''2. 3-5 key strengths that make this candidate suitable'',
      ''3. 1-2 potential gaps in the candidate's profile'',
      ''4. 2-3 specific suggestions to improve candidacy for this role'',
      '''',
      ''Format your response as:'',
      ''Score: [number]'',
      ''Strengths: [bullet points]'',
      ''Gaps: [bullet points]'',
      ''Suggestions: [bullet points]'']"

definition get_match_score :: "job \<Rightarrow> string \<Rightarrow> match_result option" where
  \<comment> \<open>the method ends after the assignment of \<open>prompt\<close>, so it returns Python's \<open>None\<close>\<close>
  "get_match_score job_data resume_text =
     (let prompt = match_prompt job_data resume_text in None)"







section \<open>The per-user run\<close>

definition match_msg :: "job \<Rightarrow> int \<Rightarrow> string \<Rightarrow> string" where
  "match_msg j sc an =
     rocket @ '' *New Job Match!*'' @ nl @ nl @
     pushpin @ '' *'' @ title j @ ''*'' @ nl @
     office_building @ '' '' @ company j @ nl @
     round_pushpin @ '' '' @ location j @ nl @
     globe @ '' Source: '' @ source j @ nl @
     bar_chart @ '' *AI Match Score:* '' @ str_int sc @ ''%'' @ nl @ nl @
     ''*Analysis:*'' @ nl @ an @ nl @ nl @
     link_symbol @ '' [Apply Here]('' @ link j @ '')''"

definition none_met_msg :: "nat \<Rightarrow> int \<Rightarrow> string" where
  "none_met_msg n threshold =
     magnifier @ '' I found '' @ str_int (int n) @
     '' new jobs, but none met your minimum match score of '' @ str_int threshold @
     ''%. I'll keep searching!''"

definition matches_sent_msg :: "nat \<Rightarrow> string" where
  "matches_sent_msg n =
     check_mark @ '' Sent you '' @ str_int (int n) @
     '' job matches today! I'll send more when I find them.''"

definition record_sent :: "string \<Rightarrow> profile \<Rightarrow> profile" where
  \<comment> \<open>lines 386 to 388: append, then keep the last hundred\<close>
  "record_sent jid p =
     (let l = jobs_sent p @ [jid]
      in p\<lparr>jobs_sent := (if length l > 100 then drop (length l - 100) l else l)\<rparr>)"

text \<open>
  \<open>user_data\<close> is the profile object that sits inside \<open>self.users\<close>. The loop works on
  that object; \<open>deliver_jobs\<close> puts its last state into the map, also when the loop
  stops on an exception. Subscripting the \<open>None\<close> that \<open>get_match_score\<close> returns raises
  TypeError, which nothing in the method catches.
\<close>

fun jobs_loop ::
  "int \<Rightarrow> job list \<Rightarrow> nat \<Rightarrow> profile \<times> bot \<Rightarrow> (error + nat) \<times> profile \<times> bot" where
  "jobs_loop chat_id [] matches_found (user_data, s) = (Inr matches_found, user_data, s)"
| "jobs_loop chat_id (j # rest) matches_found (user_data, s) =
     (let user_data1 = record_sent (job_id j) user_data;
          s1 = emit (Scoring (job_id j)) s
      in case get_match_score j (resume user_data1) of
           None \<Rightarrow> (Inl TypeError, user_data1, s1)
         | Some match_result \<Rightarrow>
             if score match_result \<ge> min_match_score user_data1
             then jobs_loop chat_id rest (matches_found + 1)
                    (user_data1,
                     emit Slept (send_message chat_id
                       (match_msg j (score match_result) (analysis match_result))
                       (Some ''Markdown'') s1))
             else jobs_loop chat_id rest matches_found (user_data1, s1))"

definition deliver_jobs ::
  "int \<Rightarrow> profile \<Rightarrow> job list \<Rightarrow> bot \<Rightarrow> (error + unit) \<times> bot" where
  \<comment> \<open>lines 371 to 421 of \<open>send_jobs_to_user\<close>, from the fetched postings on\<close>
  "deliver_jobs chat_id user_data jobs s =
     (if jobs = [] then (Inr (), send_message chat_id no_new_jobs_msg None s)
      else
        (let new_jobs = filter (\<lambda>j. job_id j \<notin> set (jobs_sent user_data)) jobs
         in if new_jobs = [] then (Inr (), send_message chat_id no_new_jobs_msg None s)
            else
              (let (r, user_data1, s1) = jobs_loop chat_id new_jobs 0 (user_data, s);
                   s2 = s1\<lparr>users := (users s1)(str_int chat_id \<mapsto> user_data1)\<rparr>
               in case r of
                    Inl e \<Rightarrow> (Inl e, s2)
                  | Inr matches_found \<Rightarrow>
                      (Inr (), save_users
                         (if matches_found = 0
                          then send_message chat_id
                                 (none_met_msg (length new_jobs) (min_match_score user_data1))
                                 None s2
                          else send_message chat_id (matches_sent_msg matches_found)
                                 None s2)))))"

definition send_jobs_to_user :: "env \<Rightarrow> int \<Rightarrow> bot \<Rightarrow> (error + unit) \<times> bot" where
  "send_jobs_to_user env chat_id s =
     (case users s (str_int chat_id) of
        None \<Rightarrow> (Inr (), s)
      | Some user_data \<Rightarrow>
          if \<not> is_active user_data then (Inr (), s)
          else if resume user_data = [] then (Inr (), ask_for_resume chat_id s)
          else
            (case scrape_jobs env (search_keywords user_data) (search_location user_data) s of
               (Inl e, s1) \<Rightarrow> (Inl e, s1)
             | (Inr jobs, s1) \<Rightarrow> deliver_jobs chat_id user_data jobs s1))"

section \<open>Inbound messages\<close>

definition poll_offset :: "bot \<Rightarrow> int option" where
  \<comment> \<open>the offset in the getUpdates URL: none while \<open>last_update_id\<close> is \<open>None\<close> or 0\<close>
  "poll_offset s =
     (case last_update_id s of
        None \<Rightarrow> None
      | Some n \<Rightarrow> if n = 0 then None else Some (n + 1))"

definition handle_update :: "env \<Rightarrow> bot \<Rightarrow> tg_update \<Rightarrow> bot" where
  \<comment> \<open>the body of the loop over the batch\<close>
  "handle_update env s u =
     (case message u of
        None \<Rightarrow> s
      | Some m \<Rightarrow>
          (let chat_id = msg_chat m;
               (is_new_user, s1) = register_user (clock env) chat_id s
           in case msg_document m of
                Some file_id \<Rightarrow> handle_document env file_id chat_id s1
              | None \<Rightarrow>
                  (case msg_text m of
                     None \<Rightarrow> s1
                   | Some text \<Rightarrow>
                       if startswith text ''/start'' \<and> \<not> is_new_user
                       then parse_command env text chat_id True s1
                       else parse_command env text chat_id False s1)))"

definition process_telegram_updates :: "env \<Rightarrow> bot \<Rightarrow> bot" where
  "process_telegram_updates env s =
     (case get_updates env (poll_offset s) of
        Inl e \<Rightarrow> emit (Logged ''Error processing updates'' e) s
      | Inr None \<Rightarrow> s
      | Inr (Some updates_to_process) \<Rightarrow>
          if updates_to_process = [] then s
          else
            (let newest = Max (set (map update_id updates_to_process));
                 s1 = emit (OffsetSet newest) (s\<lparr>last_update_id := Some newest\<rparr>)
             in foldl (handle_update env) s1 updates_to_process))"

section \<open>An example process\<close>

text \<open>
  One registered user with a resume, a LinkedIn page with two cards, an Indeed request
  that fails, and a pending /help message. The two hash secrets are the ones CPython
  derives from PYTHONHASHSEED=1 and PYTHONHASHSEED=2.
\<close>

definition seed1_secret :: "u64 \<times> u64" where
  "seed1_secret = (12598376723466036009, 16999324916296290386)"

definition seed2_secret :: "u64 \<times> u64" where
  "seed2_secret = (4611336564914921517, 11932672506142756049)"

definition card_a :: li_card where
  "card_a = \<lparr>li_h3 = Some ''ML Engineer'', li_h4 = Some ''Acme'', li_location = Some ''Pune'',
              li_a = Some (Some ''https://www.linkedin.com/jobs/view/1'')\<rparr>"

definition card_b :: li_card where
  "card_b = \<lparr>li_h3 = Some ''Data Scientist'', li_h4 = Some ''Initech'',
              li_location = Some ''Delhi'',
              li_a = Some (Some ''https://www.linkedin.com/jobs/view/2'')\<rparr>"

definition posting_a :: job where
  "posting_a = \<lparr>source = ''LinkedIn'', title = ''ML Engineer'', company = ''Acme'',
                 location = ''Pune'', link = ''https://www.linkedin.com/jobs/view/1'',
                 job_id = ''li_-5328423417510594393''\<rparr>"

definition posting_b :: job where
  "posting_b = \<lparr>source = ''LinkedIn'', title = ''Data Scientist'', company = ''Initech'',
                 location = ''Delhi'', link = ''https://www.linkedin.com/jobs/view/2'',
                 job_id = ''li_6528799121913304726''\<rparr>"

definition help_update :: tg_update where
  "help_update = \<lparr>update_id = 7, message = Some \<lparr>msg_chat = 42, msg_document = None,
                                                  msg_text = Some ''/help''\<rparr>\<rparr>"

definition demo_env :: env where
  "demo_env =
     \<lparr>clock = ''2024-05-01T09:00:00'', hash_secret = seed1_secret,
      linkedin_get = (\<lambda>url. Inr (200, [card_a, card_b])),
      indeed_get = (\<lambda>url. Inl RequestException),
      completion = (\<lambda>prompt. Inl APIError),
      get_file = (\<lambda>file_id. Inl RequestException),
      download = (\<lambda>path. Inl RequestException),
      write_pdf = (\<lambda>chat_id content. None),
      pdf_pages = (\<lambda>content. Inl RuntimeError),
      get_updates = (\<lambda>offset. Inr (Some [help_update]))\<rparr>"

definition demo_profile :: profile where
  "demo_profile = (default_profile ''2024-04-30T08:00:00'')\<lparr>resume := ''Python developer''\<rparr>"

definition demo_bot :: bot where
  "demo_bot = \<lparr>users = [''42'' \<mapsto> demo_profile], last_update_id = None, trace = []\<rparr>"

section \<open>Notions used in the properties\<close>

text \<open>
  The spec's invariant on the delivered list, for every profile of the store.
\<close>

definition bounded :: "bot \<Rightarrow> bool" where
  "bounded s = (\<forall>k p. users s k = Some p \<longrightarrow> length (jobs_sent p) \<le> 100)"


text \<open>
  One call leaves \<open>last_update_id\<close> alone, only adds to the trace, and keeps the
  invariant: what every operation but the assignment of the offset does.
\<close>

definition evolves :: "bot \<Rightarrow> bot \<Rightarrow> bool" where
  "evolves s s' =
     (last_update_id s' = last_update_id s \<and> prefix (trace s) (trace s') \<and>
      (bounded s \<longrightarrow> bounded s'))"

text \<open>
  The postings that a list of cards yields, in order: a card that fails to parse yields
  none. What a source contributes to one fetch is then a function of that source's own
  answer.
\<close>

definition parsed_jobs :: "('c \<Rightarrow> error + job) \<Rightarrow> 'c list \<Rightarrow> job list" where
  "parsed_jobs f cards = concat (map (\<lambda>c. case f c of Inr j \<Rightarrow> [j] | Inl e \<Rightarrow> []) cards)"

definition linkedin_found :: "env \<Rightarrow> string list \<Rightarrow> string \<Rightarrow> job list" where
  "linkedin_found env keywords loc =
     (case keywords of
        [] \<Rightarrow> []
      | k # _ \<Rightarrow>
          (case linkedin_get env (linkedin_url k loc) of
             Inl e \<Rightarrow> []
           | Inr (status_code, cards) \<Rightarrow>
               if status_code = 200 then parsed_jobs (linkedin_job env) (take 10 cards) else []))"

definition indeed_found :: "env \<Rightarrow> string list \<Rightarrow> string \<Rightarrow> job list" where
  "indeed_found env keywords loc =
     (case keywords of
        [] \<Rightarrow> []
      | k # _ \<Rightarrow>
          (case indeed_get env (indeed_url k loc) of
             Inl e \<Rightarrow> []
           | Inr (status_code, cards) \<Rightarrow>
               if status_code = 200 then parsed_jobs (indeed_job env) (take 10 cards) else []))"

text \<open>
  "The offset is advanced only after the batch", read on the trace of one poll: nothing
  comes after the assignment of \<open>last_update_id\<close>.
\<close>

fun offset_set_last :: "event list \<Rightarrow> bool" where
  "offset_set_last [] = True"
| "offset_set_last (OffsetSet n # es) = (es = [])"
| "offset_set_last (e # es) = offset_set_last es"


definition served_profile :: profile where
  "served_profile = demo_profile\<lparr>jobs_sent := [''li_-5328423417510594393'',
                                                ''li_6528799121913304726'']\<rparr>"

definition served_bot :: bot where
  "served_bot = \<lparr>users = [''42'' \<mapsto> served_profile], last_update_id = None, trace = []\<rparr>"

section \<open>Properties\<close>

subsection \<open>How the state evolves\<close>

lemma evolves_refl [simp]: "evolves s s"
  by (simp add: evolves_def)

lemma evolves_trans: "evolves s t \<Longrightarrow> evolves t u \<Longrightarrow> evolves s u"
  by (auto simp: evolves_def)

lemma evolves_emit: "evolves s t \<Longrightarrow> evolves s (emit e t)"
  by (auto simp: evolves_def emit_def bounded_def prefix_def)

lemma evolves_send: "evolves s t \<Longrightarrow> evolves s (send_message c txt m t)"
  by (simp add: send_message_def evolves_emit)

lemma evolves_save: "evolves s t \<Longrightarrow> evolves s (save_users t)"
  by (simp add: save_users_def evolves_emit)

lemma evolves_put:
  assumes "evolves s t" and "bounded t \<Longrightarrow> length (jobs_sent p) \<le> 100"
  shows "evolves s (t\<lparr>users := (users t)(k \<mapsto> p)\<rparr>)"
  using assms by (auto simp: evolves_def bounded_def)

lemma bounded_lookup: "bounded t \<Longrightarrow> users t k = Some p \<Longrightarrow> length (jobs_sent p) \<le> 100"
  by (auto simp: bounded_def)

lemma evolves_register: "evolves s t \<Longrightarrow> register_user now c t = (b, t') \<Longrightarrow> evolves s t'"
  by (auto simp: register_user_def default_profile_def Let_def split: if_splits
        intro!: evolves_save evolves_put)

lemma evolves_set_resume: "evolves s t \<Longrightarrow> set_resume now c r t = (b, t') \<Longrightarrow> evolves s t'"
  by (auto simp: set_resume_def Let_def split: option.splits
        intro!: evolves_save evolves_put dest: bounded_lookup)

lemma evolves_set_prefs:
  "evolves s t \<Longrightarrow> set_search_preferences now c kw loc ms nt t = (b, t') \<Longrightarrow> evolves s t'"
  by (auto simp: set_search_preferences_def Let_def split: option.splits
        intro!: evolves_save evolves_put dest: bounded_lookup)

lemma evolves_set_active: "evolves s t \<Longrightarrow> evolves s (set_active c f r t)"
  by (auto simp: set_active_def Let_def split: option.splits
        intro!: evolves_send evolves_save evolves_put dest: bounded_lookup)

lemmas evolves_intros = evolves_send evolves_save evolves_emit

lemma evolves_cmd_start: "evolves s t \<Longrightarrow> evolves s (cmd_start env txt c sk t)"
  by (auto simp: cmd_start_def ask_for_resume_def split: prod.splits
        intro!: evolves_intros elim: evolves_register)

lemma evolves_cmd_preferences: "evolves s t \<Longrightarrow> evolves s (cmd_preferences env txt c t)"
  by (auto simp: cmd_preferences_def ask_for_preferences_def Let_def
        split: prod.splits sum.splits intro!: evolves_intros elim: evolves_set_prefs)

lemma evolves_cmd_keywords: "evolves s t \<Longrightarrow> evolves s (cmd_keywords env txt c t)"
  by (auto simp: cmd_keywords_def Let_def
        split: prod.splits intro!: evolves_intros elim: evolves_set_prefs)

lemma evolves_cmd_location: "evolves s t \<Longrightarrow> evolves s (cmd_location env txt c t)"
  by (auto simp: cmd_location_def Let_def
        split: prod.splits intro!: evolves_intros elim: evolves_set_prefs)

lemma evolves_cmd_score: "evolves s t \<Longrightarrow> evolves s (cmd_score env txt c t)"
  by (auto simp: cmd_score_def Let_def
        split: prod.splits sum.splits intro!: evolves_intros elim: evolves_set_prefs)

lemma evolves_cmd_time: "evolves s t \<Longrightarrow> evolves s (cmd_time env txt c t)"
  by (auto simp: cmd_time_def Let_def
        split: prod.splits intro!: evolves_intros elim: evolves_set_prefs)

lemma evolves_parse_command: "evolves s t \<Longrightarrow> evolves s (parse_command env txt c sk t)"
  by (simp add: parse_command_def Let_def evolves_cmd_start evolves_cmd_preferences
        evolves_cmd_keywords evolves_cmd_location evolves_cmd_score evolves_cmd_time
        evolves_set_active evolves_intros)

lemma evolves_extract:
  "evolves s t \<Longrightarrow> extract_text_from_pdf env pdf t = (txt, t') \<Longrightarrow> evolves s t'"
  by (auto simp: extract_text_from_pdf_def Let_def split: sum.splits intro!: evolves_intros)

lemma evolves_handle_document: "evolves s t \<Longrightarrow> evolves s (handle_document env f c t)"
  by (auto simp: handle_document_def ask_for_preferences_def Let_def
        split: sum.splits option.splits prod.splits intro!: evolves_intros)
     (blast intro: evolves_set_resume evolves_extract)+

lemma evolves_handle_update: "evolves s t \<Longrightarrow> evolves s (handle_update env t u)"
  by (auto simp: handle_update_def Let_def split: option.splits prod.splits
        intro!: evolves_parse_command evolves_handle_document elim: evolves_register)

lemma evolves_batch: "evolves s t \<Longrightarrow> evolves s (foldl (handle_update env) t us)"
  by (induction us arbitrary: t) (simp_all add: evolves_handle_update)

subsection \<open>What a fetch returns\<close>

lemma length_parsed_jobs: "length (parsed_jobs f cards) \<le> length cards"
  by (induction cards) (auto simp: parsed_jobs_def split: sum.splits)

lemma set_parsed_jobs: "j \<in> set (parsed_jobs f cards) \<Longrightarrow> \<exists>c \<in> set cards. f c = Inr j"
  by (induction cards) (auto simp: parsed_jobs_def split: sum.splits)

lemma fold_append_parsed:
  "fst (foldl (\<lambda>acc item. append_parsed label (f item) acc) (job_list, s) cards) =
     job_list @ parsed_jobs f cards"
proof (induction cards arbitrary: job_list s)
  case Nil
  then show ?case by (simp add: parsed_jobs_def)
next
  case (Cons c cards)
  show ?case
  proof (cases "f c")
    case (Inl e)
    then show ?thesis
      using Cons [of job_list "emit (Logged label e) s"]
      by (simp add: append_parsed_def parsed_jobs_def)
  next
    case (Inr j)
    then show ?thesis
      using Cons [of "job_list @ [j]" s]
      by (simp add: append_parsed_def parsed_jobs_def)
  qed
qed

lemma fold_append_evolves:
  "evolves s0 s \<Longrightarrow>
   evolves s0 (snd (foldl (\<lambda>acc item. append_parsed label (f item) acc) (job_list, s) cards))"
proof (induction cards arbitrary: job_list s)
  case Nil
  then show ?case by simp
next
  case (Cons c cards)
  show ?case
  proof (cases "f c")
    case (Inl e)
    then show ?thesis
      using Cons.IH [of "emit (Logged label e) s" job_list] Cons.prems
      by (simp add: append_parsed_def evolves_emit)
  next
    case (Inr j)
    then show ?thesis
      using Cons.IH [of s "job_list @ [j]"] Cons.prems
      by (simp add: append_parsed_def)
  qed
qed

lemma fold_append_users:
  "users (snd (foldl (\<lambda>acc item. append_parsed label (f item) acc) (job_list, s) cards)) =
     users s"
proof (induction cards arbitrary: job_list s)
  case Nil
  then show ?case by simp
next
  case (Cons c cards)
  show ?case
  proof (cases "f c")
    case (Inl e)
    then show ?thesis
      using Cons [of job_list "emit (Logged label e) s"]
      by (simp add: append_parsed_def emit_def)
  next
    case (Inr j)
    then show ?thesis
      using Cons [of "job_list @ [j]" s]
      by (simp add: append_parsed_def)
  qed
qed

lemma linkedin_job_source: "linkedin_job env c = Inr j \<Longrightarrow> source j = ''LinkedIn''"
  by (auto simp: linkedin_job_def split: option.splits)

lemma indeed_job_source: "indeed_job env c = Inr j \<Longrightarrow> source j = ''Indeed''"
  by (auto simp: indeed_job_def Let_def split: option.splits prod.splits)

lemma linkedin_block_jobs:
  "fst (snd (linkedin_block env kws loc js)) = fst js @ linkedin_found env kws loc"
  by (cases js)
     (auto simp: linkedin_block_def linkedin_found_def Let_def fold_append_parsed
        split: list.splits sum.splits)

lemma indeed_block_jobs:
  "fst (snd (indeed_block env kws loc js)) = fst js @ indeed_found env kws loc"
  by (cases js)
     (auto simp: indeed_block_def indeed_found_def Let_def fold_append_parsed
        split: list.splits sum.splits)

lemma except_log_jobs: "fst (except_log label r) = fst (snd r)"
  by (auto simp: except_log_def split: prod.splits sum.splits)

lemma scrape_jobs_result:
  "fst (scrape_jobs env kws loc s) =
     Inr (linkedin_found env kws loc @ indeed_found env kws loc)"
  by (simp add: scrape_jobs_def Let_def except_log_jobs indeed_block_jobs linkedin_block_jobs)

lemma linkedin_found_bound:
  "length (linkedin_found env kws loc) \<le> 10 \<and>
   (\<forall>j \<in> set (linkedin_found env kws loc). source j = ''LinkedIn'')"
proof -
  have "length (parsed_jobs (linkedin_job env) (take 10 cards)) \<le> 10" for cards
    using length_parsed_jobs [of "linkedin_job env" "take 10 cards"] by simp
  then show ?thesis
    by (auto simp: linkedin_found_def split: list.splits sum.splits
          dest!: set_parsed_jobs linkedin_job_source)
qed

lemma indeed_found_bound:
  "length (indeed_found env kws loc) \<le> 10 \<and>
   (\<forall>j \<in> set (indeed_found env kws loc). source j = ''Indeed'')"
proof -
  have "length (parsed_jobs (indeed_job env) (take 10 cards)) \<le> 10" for cards
    using length_parsed_jobs [of "indeed_job env" "take 10 cards"] by simp
  then show ?thesis
    by (auto simp: indeed_found_def split: list.splits sum.splits
          dest!: set_parsed_jobs indeed_job_source)
qed

subsection \<open>The delivered list in the loop\<close>





declare jobs_loop.simps [simp del]

lemma jobs_loop_stop:
  "get_match_score j (resume (record_sent (job_id j) p)) = None \<Longrightarrow>
   jobs_loop c (j # js) m (p, s) =
     (Inl TypeError, record_sent (job_id j) p, emit (Scoring (job_id j)) s)"
  by (simp add: jobs_loop.simps Let_def)

lemma jobs_loop_next:
  "get_match_score j (resume (record_sent (job_id j) p)) = Some mr \<Longrightarrow>
   jobs_loop c (j # js) m (p, s) =
     (if score mr \<ge> min_match_score (record_sent (job_id j) p)
      then jobs_loop c js (m + 1)
             (record_sent (job_id j) p,
              emit Slept (send_message c (match_msg j (score mr) (analysis mr))
                            (Some ''Markdown'') (emit (Scoring (job_id j)) s)))
      else jobs_loop c js m (record_sent (job_id j) p, emit (Scoring (job_id j)) s))"
  by (simp add: jobs_loop.simps Let_def)




lemma users_emit: "users (emit e s) = users s"
  by (simp add: emit_def)


lemma block_state_linkedin:
  "evolves s0 (snd js) \<Longrightarrow>
   evolves s0 (snd (snd (linkedin_block env kws loc js))) \<and>
   users (snd (snd (linkedin_block env kws loc js))) = users (snd js)"
  by (cases js)
     (auto simp: linkedin_block_def Let_def fold_append_evolves fold_append_users
        split: list.splits sum.splits)

lemma block_state_indeed:
  "evolves s0 (snd js) \<Longrightarrow>
   evolves s0 (snd (snd (indeed_block env kws loc js))) \<and>
   users (snd (snd (indeed_block env kws loc js))) = users (snd js)"
  by (cases js)
     (auto simp: indeed_block_def Let_def fold_append_evolves fold_append_users
        split: list.splits sum.splits)

lemma except_log_state:
  "evolves s0 (snd (snd r)) \<Longrightarrow>
   evolves s0 (snd (except_log label r)) \<and> users (snd (except_log label r)) = users (snd (snd r))"
  by (auto simp: except_log_def evolves_emit users_emit split: prod.splits sum.splits)

lemma scrape_jobs_state:
  assumes "evolves s0 s"
  shows "evolves s0 (snd (scrape_jobs env kws loc s)) \<and>
         users (snd (scrape_jobs env kws loc s)) = users s"
proof -
  let ?js0 = "([] :: job list, emit Slept s)"
  let ?js1 = "except_log ''LinkedIn scraping error'' (linkedin_block env kws loc ?js0)"
  let ?js2 = "except_log ''Indeed scraping error'' (indeed_block env kws loc ?js1)"
  have a0: "evolves s0 (snd ?js0)" "users (snd ?js0) = users s"
    using assms by (simp add: evolves_emit) (simp add: emit_def)
  have a1: "evolves s0 (snd ?js1)" "users (snd ?js1) = users s"
    using block_state_linkedin [OF a0(1), of env kws loc] a0(2)
          except_log_state [of s0 "linkedin_block env kws loc ?js0" "''LinkedIn scraping error''"]
    by auto
  have a2: "evolves s0 (snd ?js2)" "users (snd ?js2) = users s"
    using block_state_indeed [OF a1(1), of env kws loc] a1(2)
          except_log_state [of s0 "indeed_block env kws loc ?js1" "''Indeed scraping error''"]
    by auto
  show ?thesis
    using a2 by (simp add: scrape_jobs_def Let_def)
qed





subsection \<open>The example process, evaluated\<close>

lemma str_42: "str_int 42 = ''42''" by code_simp

lemma demo_poll:
  "process_telegram_updates demo_env demo_bot =
     demo_bot\<lparr>last_update_id := Some 7,
               trace := [OffsetSet 7, Sent 42 help_msg (Some ''Markdown'')]\<rparr>"
  by (simp add: process_telegram_updates_def demo_env_def poll_offset_def demo_bot_def
        help_update_def handle_update_def register_user_def str_42 parse_command_def
        strip_def isspace_def startswith_def send_message_def emit_def)

lemma sip_blocks_numeral:
  "sip_blocks (numeral k) (v0, v1, v2, v3) src =
     (let mi = le64 (take 8 src);
          (v0, v1, v2, v3) = single_round (v0, v1, v2, v3 XOR mi)
      in sip_blocks (pred_numeral k) (v0 XOR mi, v1, v2, v3) (drop 8 src))"
  by (simp add: numeral_eq_Suc)

lemmas sip_eval = py_hash_def siphash13_def single_round_def half_round_def rotate_def le64_def
  sip_blocks_numeral

lemma hash_a1: "py_hash seed1_secret ''https://www.linkedin.com/jobs/view/1'' = - 5328423417510594393"
  by (simp add: sip_eval seed1_secret_def)
lemma hash_b1: "py_hash seed1_secret ''https://www.linkedin.com/jobs/view/2'' = 6528799121913304726"
  by (simp add: sip_eval seed1_secret_def)
lemma str_a1: "str_int (- 5328423417510594393) = ''-5328423417510594393''" by code_simp
lemma str_b1: "str_int 6528799121913304726 = ''6528799121913304726''" by code_simp

lemma job_a: "linkedin_job demo_env card_a = Inr posting_a"
  by (simp add: linkedin_job_def demo_env_def card_a_def posting_a_def hash_a1 str_a1 strip_def isspace_def)

lemma job_b: "linkedin_job demo_env card_b = Inr posting_b"
  by (simp add: linkedin_job_def demo_env_def card_b_def posting_b_def hash_b1 str_b1 strip_def isspace_def)

lemma demo_scrape:
  "scrape_jobs demo_env (k # ks) loc s =
     (Inr [posting_a, posting_b],
      emit (Logged ''Indeed scraping error'' RequestException) (emit Slept s))"
  using job_a job_b
  by (simp add: scrape_jobs_def linkedin_block_def indeed_block_def except_log_def
        append_parsed_def demo_env_def)

lemma demo_user: "users demo_bot (str_int 42) = Some demo_profile"
  by (simp add: demo_bot_def str_42)

lemma demo_run:
  "send_jobs_to_user demo_env 42 demo_bot =
     (Inl TypeError,
      \<lparr>users = [''42'' \<mapsto> demo_profile\<lparr>jobs_sent := [''li_-5328423417510594393'']\<rparr>],
       last_update_id = None,
       trace = [Slept, Logged ''Indeed scraping error'' RequestException,
                Scoring ''li_-5328423417510594393'']\<rparr>)"
  by (simp add: send_jobs_to_user_def demo_user demo_scrape deliver_jobs_def jobs_loop.simps
        get_match_score_def record_sent_def emit_def str_42
        demo_profile_def default_profile_def demo_bot_def posting_a_def posting_b_def)

lemma hash_a2:
  "py_hash seed2_secret ''https://www.linkedin.com/jobs/view/1'' = - 3703887263414626714"
  by (simp add: sip_eval seed2_secret_def)

lemma str_a2: "str_int (- 3703887263414626714) = ''-3703887263414626714''"
  by code_simp

subsection \<open>Commands, events of a run, sources\<close>


lemma jobs_loop_events:
  "e \<in> set (trace (snd (snd (jobs_loop c js m (p, s))))) \<Longrightarrow>
   e \<in> set (trace s) \<or> e = Slept \<or>
   (\<exists>j \<in> set js. e = Scoring (job_id j) \<or>
      (\<exists>sc an. e = Sent c (match_msg j sc an) (Some ''Markdown'')))"
proof (induction js arbitrary: m p s)
  case Nil
  then show ?case by (simp add: jobs_loop.simps)
next
  case (Cons j js)
  let ?p1 = "record_sent (job_id j) p"
  let ?s1 = "emit (Scoring (job_id j)) s"
  show ?case
  proof (cases "get_match_score j (resume ?p1)")
    case None
    show ?thesis
      using Cons.prems by (auto simp: jobs_loop_stop [OF None] emit_def)
  next
    case (Some mr)
    let ?s2 = "emit Slept (send_message c (match_msg j (score mr) (analysis mr))
                             (Some ''Markdown'') ?s1)"
    have t1: "set (trace ?s1) = insert (Scoring (job_id j)) (set (trace s))"
      by (simp add: emit_def)
    have t2: "set (trace ?s2) =
        {Slept, Sent c (match_msg j (score mr) (analysis mr)) (Some ''Markdown''),
         Scoring (job_id j)} \<union> set (trace s)"
      by (auto simp: emit_def send_message_def)
    show ?thesis
    proof (cases "score mr \<ge> min_match_score ?p1")
      case True
      then have "e \<in> set (trace (snd (snd (jobs_loop c js (m + 1) (?p1, ?s2)))))"
        using Cons.prems by (simp add: jobs_loop_next [OF Some])
      from Cons.IH [OF this] show ?thesis
        unfolding t2 by auto
    next
      case False
      then have "e \<in> set (trace (snd (snd (jobs_loop c js m (?p1, ?s1)))))"
        using Cons.prems by (simp add: jobs_loop_next [OF Some])
      from Cons.IH [OF this] show ?thesis
        unfolding t1 by auto
    qed
  qed
qed

lemma deliver_jobs_filter:
  "deliver_jobs c p jobs s =
     deliver_jobs c p (filter (\<lambda>j. job_id j \<notin> set (jobs_sent p)) jobs) s"
  by (cases "filter (\<lambda>j. job_id j \<notin> set (jobs_sent p)) jobs = []")
     (auto simp: deliver_jobs_def Let_def)

lemma deliver_jobs_none_new:
  "\<forall>j \<in> set jobs. job_id j \<in> set (jobs_sent p) \<Longrightarrow>
   deliver_jobs c p jobs s = (Inr (), send_message c no_new_jobs_msg None s)"
  by (auto simp: deliver_jobs_def Let_def filter_empty_conv)

lemma deliver_jobs_events:
  assumes "e \<in> set (trace (snd (deliver_jobs c p jobs s)))"
  shows "e \<in> set (trace s) \<or> e = Slept \<or> e = Saved \<or>
         (\<exists>txt. e = Sent c txt None) \<or>
         (\<exists>j \<in> set jobs. job_id j \<notin> set (jobs_sent p) \<and>
            (e = Scoring (job_id j) \<or>
             (\<exists>sc an. e = Sent c (match_msg j sc an) (Some ''Markdown''))))"
proof -
  let ?new = "filter (\<lambda>j. job_id j \<notin> set (jobs_sent p)) jobs"
  show ?thesis
  proof (cases "?new = []")
    case True
    then have "\<forall>j \<in> set jobs. job_id j \<in> set (jobs_sent p)"
      by (simp add: filter_empty_conv)
    then have "deliver_jobs c p jobs s = (Inr (), send_message c no_new_jobs_msg None s)"
      by (rule deliver_jobs_none_new)
    then show ?thesis
      using assms by (auto simp: send_message_def emit_def)
  next
    case False
    then have jobs: "jobs \<noteq> []" by auto
    obtain r p1 s1 where run: "jobs_loop c ?new 0 (p, s) = (r, p1, s1)"
      by (metis prod_cases3)
    have "e \<in> set (trace s1) \<or> e = Saved \<or> (\<exists>txt. e = Sent c txt None)"
      using assms False jobs
      by (auto simp: deliver_jobs_def Let_def run send_message_def emit_def save_users_def
            split: sum.splits if_splits)
    moreover have "e \<in> set (trace s1) \<Longrightarrow>
        e \<in> set (trace s) \<or> e = Slept \<or>
        (\<exists>j \<in> set ?new. e = Scoring (job_id j) \<or>
           (\<exists>sc an. e = Sent c (match_msg j sc an) (Some ''Markdown'')))"
      using jobs_loop_events [of e c ?new 0 p s] by (simp add: run)
    ultimately show ?thesis by auto
  qed
qed

lemma found_sources:
  "filter (\<lambda>j. source j = ''LinkedIn'') (linkedin_found env kws loc) = linkedin_found env kws loc"
  "filter (\<lambda>j. source j = ''Indeed'') (linkedin_found env kws loc) = []"
  "filter (\<lambda>j. source j = ''Indeed'') (indeed_found env kws loc) = indeed_found env kws loc"
  "filter (\<lambda>j. source j = ''LinkedIn'') (indeed_found env kws loc) = []"
proof -
  have l: "\<forall>j \<in> set (linkedin_found env kws loc). source j = ''LinkedIn''"
    and i: "\<forall>j \<in> set (indeed_found env kws loc). source j = ''Indeed''"
    using linkedin_found_bound [of env kws loc] indeed_found_bound [of env kws loc] by auto
  show "filter (\<lambda>j. source j = ''LinkedIn'') (linkedin_found env kws loc) =
          linkedin_found env kws loc"
    using l by (simp add: filter_id_conv)
  show "filter (\<lambda>j. source j = ''Indeed'') (linkedin_found env kws loc) = []"
    using l by (simp add: filter_empty_conv)
  show "filter (\<lambda>j. source j = ''Indeed'') (indeed_found env kws loc) = indeed_found env kws loc"
    using i by (simp add: filter_id_conv)
  show "filter (\<lambda>j. source j = ''LinkedIn'') (indeed_found env kws loc) = []"
    using i by (simp add: filter_empty_conv)
qed

lemma job_env_frame:
  "linkedin_job (env\<lparr>indeed_get := g\<rparr>) = linkedin_job env"
  "indeed_job (env\<lparr>linkedin_get := h\<rparr>) = indeed_job env"
proof -
  show "linkedin_job (env\<lparr>indeed_get := g\<rparr>) = linkedin_job env"
    by (rule ext) (simp add: linkedin_job_def split: option.splits)
  show "indeed_job (env\<lparr>linkedin_get := h\<rparr>) = indeed_job env"
    by (rule ext) (simp add: indeed_job_def Let_def split: option.splits prod.splits)
qed

lemma found_failed:
  "linkedin_found (env\<lparr>linkedin_get := (\<lambda>url. Inl e)\<rparr>) kws loc = []"
  "indeed_found (env\<lparr>indeed_get := (\<lambda>url. Inl e)\<rparr>) kws loc = []"
  "linkedin_found (env\<lparr>indeed_get := g\<rparr>) kws loc = linkedin_found env kws loc"
  "indeed_found (env\<lparr>linkedin_get := h\<rparr>) kws loc = indeed_found env kws loc"
  by (auto simp: linkedin_found_def indeed_found_def job_env_frame
        split: list.splits sum.splits prod.splits)

lemma prefix_mem: "prefix xs ys \<Longrightarrow> x \<in> set xs \<Longrightarrow> x \<in> set ys"
  by (auto simp: prefix_def)

lemma linkedin_failure_logged:
  "Logged ''LinkedIn scraping error'' e \<in>
     set (trace (snd (scrape_jobs (env\<lparr>linkedin_get := (\<lambda>url. Inl e)\<rparr>) (k # ks) loc s)))"
proof -
  let ?env = "env\<lparr>linkedin_get := (\<lambda>url. Inl e)\<rparr>"
  let ?js1 = "except_log ''LinkedIn scraping error'' (linkedin_block ?env (k # ks) loc ([], emit Slept s))"
  have a: "Logged ''LinkedIn scraping error'' e \<in> set (trace (snd ?js1))"
    by (simp add: linkedin_block_def except_log_def emit_def)
  have "evolves (snd ?js1) (snd (snd (indeed_block ?env (k # ks) loc ?js1)))"
    using block_state_indeed [of "snd ?js1" ?js1 ?env "k # ks" loc] by simp
  then have "evolves (snd ?js1)
      (snd (except_log ''Indeed scraping error'' (indeed_block ?env (k # ks) loc ?js1)))"
    using except_log_state by blast
  then have "prefix (trace (snd ?js1))
      (trace (snd (except_log ''Indeed scraping error'' (indeed_block ?env (k # ks) loc ?js1))))"
    by (simp add: evolves_def)
  from prefix_mem [OF this a] show ?thesis
    by (simp add: scrape_jobs_def Let_def)
qed

lemma indeed_failure_logged:
  "Logged ''Indeed scraping error'' e \<in>
     set (trace (snd (scrape_jobs (env\<lparr>indeed_get := (\<lambda>url. Inl e)\<rparr>) (k # ks) loc s)))"
  by (simp add: scrape_jobs_def Let_def indeed_block_def except_log_def emit_def
        split: prod.splits)

lemma no_keywords:
  "scrape_jobs env [] loc s =
     (Inr [], emit (Logged ''Indeed scraping error'' IndexError)
                (emit (Logged ''LinkedIn scraping error'' IndexError) (emit Slept s)))"
  by (simp add: scrape_jobs_def Let_def linkedin_block_def indeed_block_def except_log_def)

lemma fold_append_logged:
  "c \<in> set cards \<Longrightarrow> f c = Inl e \<Longrightarrow>
   Logged label e \<in>
     set (trace (snd (foldl (\<lambda>acc item. append_parsed label (f item) acc) (job_list, s) cards)))"
proof (induction cards arbitrary: job_list s)
  case Nil
  then show ?case by simp
next
  case (Cons d cards)
  show ?case
  proof (cases "c = d")
    case True
    let ?s1 = "emit (Logged label e) s"
    have "evolves ?s1 (snd (foldl (\<lambda>acc item. append_parsed label (f item) acc)
                               (job_list, ?s1) cards))"
      by (rule fold_append_evolves) simp
    then have "prefix (trace ?s1) (trace (snd (foldl (\<lambda>acc item.
                 append_parsed label (f item) acc) (job_list, ?s1) cards)))"
      by (simp add: evolves_def)
    moreover have "Logged label e \<in> set (trace ?s1)"
      by (simp add: emit_def)
    ultimately show ?thesis
      using True Cons.prems(2) by (simp add: append_parsed_def prefix_mem)
  next
    case False
    then have mem: "c \<in> set cards"
      using Cons.prems(1) by simp
    show ?thesis
    proof (cases "f d")
      case (Inl e')
      then show ?thesis
        using Cons.IH [OF mem Cons.prems(2), of job_list "emit (Logged label e') s"]
        by (simp add: append_parsed_def)
    next
      case (Inr j)
      then show ?thesis
        using Cons.IH [OF mem Cons.prems(2), of "job_list @ [j]" s]
        by (simp add: append_parsed_def)
    qed
  qed
qed

lemma linkedin_record_logged:
  assumes "linkedin_get env (linkedin_url k loc) = Inr (200, cards)"
    and "c \<in> set (take 10 cards)" and "linkedin_job env c = Inl e"
  shows "Logged ''LinkedIn parsing error'' e \<in>
           set (trace (snd (scrape_jobs env (k # ks) loc s)))"
proof -
  let ?js1 = "except_log ''LinkedIn scraping error''
                (linkedin_block env (k # ks) loc ([], emit Slept s))"
  have a: "Logged ''LinkedIn parsing error'' e \<in> set (trace (snd ?js1))"
    using assms(1) fold_append_logged
            [where f = "linkedin_job env" and label = "''LinkedIn parsing error''"
               and job_list = "[]" and s = "emit Slept s", OF assms(2,3)]
    by (simp add: linkedin_block_def except_log_def split: prod.splits)
  have "evolves (snd ?js1) (snd (snd (indeed_block env (k # ks) loc ?js1)))"
    using block_state_indeed [of "snd ?js1" ?js1 env "k # ks" loc] by simp
  then have "evolves (snd ?js1)
      (snd (except_log ''Indeed scraping error'' (indeed_block env (k # ks) loc ?js1)))"
    using except_log_state by blast
  then have "prefix (trace (snd ?js1))
      (trace (snd (except_log ''Indeed scraping error'' (indeed_block env (k # ks) loc ?js1))))"
    by (simp add: evolves_def)
  from prefix_mem [OF this a] show ?thesis
    by (simp add: scrape_jobs_def Let_def)
qed

lemma indeed_record_logged:
  assumes "indeed_get env (indeed_url k loc) = Inr (200, cards)"
    and "c \<in> set (take 10 cards)" and "indeed_job env c = Inl e"
  shows "Logged ''Indeed parsing error'' e \<in>
           set (trace (snd (scrape_jobs env (k # ks) loc s)))"
proof -
  obtain jl s1 where js1: "except_log ''LinkedIn scraping error''
                (linkedin_block env (k # ks) loc ([], emit Slept s)) = (jl, s1)"
    by (metis surj_pair)
  let ?run = "foldl (\<lambda>acc item. append_parsed ''Indeed parsing error'' (indeed_job env item) acc)
                (jl, s1) (take 10 cards)"
  have "snd (scrape_jobs env (k # ks) loc s) =
          snd (except_log ''Indeed scraping error'' (indeed_block env (k # ks) loc (jl, s1)))"
    by (simp add: scrape_jobs_def Let_def js1)
  also have "indeed_block env (k # ks) loc (jl, s1) = (Inr (), ?run)"
    using assms(1) by (simp add: indeed_block_def)
  also have "snd (except_log ''Indeed scraping error'' (Inr (), ?run)) = snd ?run"
    by (simp add: except_log_def split: prod.splits)
  finally show ?thesis
    using fold_append_logged
            [where f = "indeed_job env" and label = "''Indeed parsing error''"
               and job_list = jl and s = s1, OF assms(2,3)]
    by simp
qed


subsection \<open>The claims\<close>

text \<open>
  C1 (the code departs from the claim). \<open>get_match_score\<close> returns \<open>None\<close> for every
  posting and resume: no MatchResult, no clamped score, no fallback to 50. The caller
  subscripts that \<open>None\<close>, so the run of the example user stops with TypeError at its first
  new posting.
\<close>

theorem match_score_none_aborts_run:
  "get_match_score j r = None \<and>
   fst (send_jobs_to_user demo_env 42 demo_bot) = Inl TypeError"
  by (simp add: demo_run get_match_score_def)

text \<open>
  C2 (the code departs from the claim). The combined /preferences command stores the
  parsed number without a range check: after
  \<open>/preferences Data Scientist | Remote | 150 | 08:00\<close> the stored minimum match
  score of the example user is 150.
\<close>

theorem preferences_stores_score_out_of_range:
  "map_option min_match_score
     (users (parse_command demo_env ''/preferences Data Scientist | Remote | 150 | 08:00''
               42 False demo_bot) ''42'') = Some 150"
  by code_simp

text \<open>
  C3 (the code departs from the claim). The identity is built from \<open>hash\<close> of the link,
  which depends on the process's hash secret: the same LinkedIn card gets one identity in
  a process started with PYTHONHASHSEED=1 and another in one started with
  PYTHONHASHSEED=2.
\<close>

theorem posting_id_differs_between_processes:
  "map_sum id job_id (linkedin_job demo_env card_a) = Inr ''li_-5328423417510594393'' \<and>
   map_sum id job_id (linkedin_job (demo_env\<lparr>hash_secret := seed2_secret\<rparr>) card_a) =
     Inr ''li_-3703887263414626714''"
  by (simp add: linkedin_job_def demo_env_def card_a_def hash_a1 str_a1 hash_a2 str_a2)

text \<open>
  C4, as the spec states it, fails: with one pending /help message, \<open>last_update_id\<close>
  is assigned before the message is handled, so the reply comes after the assignment in
  the trace.
\<close>

theorem offset_set_before_handling:
  "trace (process_telegram_updates demo_env demo_bot) =
     [OffsetSet 7, Sent 42 help_msg (Some ''Markdown'')] \<and>
   \<not> offset_set_last (trace (process_telegram_updates demo_env demo_bot))"
  by (simp add: demo_poll)

text \<open>
  C4, amended. When the request for updates raises, the error is logged and
  \<open>last_update_id\<close>, and with it the offset of the next request, stay as they were.
  When a batch that is not empty arrives, \<open>last_update_id\<close> is set to the largest
  update id of the batch before the first message is handled, and handling the batch does
  not change it again.
\<close>

theorem offset_set_first:
  "(get_updates env (poll_offset s) = Inl e \<longrightarrow>
      process_telegram_updates env s = emit (Logged ''Error processing updates'' e) s \<and>
      last_update_id (process_telegram_updates env s) = last_update_id s \<and>
      poll_offset (process_telegram_updates env s) = poll_offset s) \<and>
   (get_updates env (poll_offset s) = Inr (Some us) \<and> us \<noteq> [] \<longrightarrow>
      last_update_id (process_telegram_updates env s) = Some (Max (set (map update_id us))) \<and>
      prefix (trace s @ [OffsetSet (Max (set (map update_id us)))])
             (trace (process_telegram_updates env s)) \<and>
      process_telegram_updates env s =
        foldl (handle_update env)
          (emit (OffsetSet (Max (set (map update_id us))))
             (s\<lparr>last_update_id := Some (Max (set (map update_id us)))\<rparr>)) us)"
proof -
  have fail: "process_telegram_updates env s = emit (Logged ''Error processing updates'' e) s"
    if "get_updates env (poll_offset s) = Inl e"
    using that by (simp add: process_telegram_updates_def)
  have ok: "last_update_id (process_telegram_updates env s) = Some (Max (set (map update_id us)))"
      "prefix (trace s @ [OffsetSet (Max (set (map update_id us)))])
             (trace (process_telegram_updates env s))"
      "process_telegram_updates env s =
        foldl (handle_update env)
          (emit (OffsetSet (Max (set (map update_id us))))
             (s\<lparr>last_update_id := Some (Max (set (map update_id us)))\<rparr>)) us"
    if "get_updates env (poll_offset s) = Inr (Some us)" "us \<noteq> []"
  proof -
    let ?m = "Max (set (map update_id us))"
    let ?s1 = "emit (OffsetSet ?m) (s\<lparr>last_update_id := Some ?m\<rparr>)"
    show run: "process_telegram_updates env s = foldl (handle_update env) ?s1 us"
      using that by (simp add: process_telegram_updates_def Let_def)
    have "evolves ?s1 (foldl (handle_update env) ?s1 us)"
      by (rule evolves_batch) simp
    then have "last_update_id (foldl (handle_update env) ?s1 us) = last_update_id ?s1"
      and "prefix (trace ?s1) (trace (foldl (handle_update env) ?s1 us))"
      by (simp_all add: evolves_def)
    then show "last_update_id (process_telegram_updates env s) = Some ?m"
      and "prefix (trace s @ [OffsetSet ?m]) (trace (process_telegram_updates env s))"
      by (simp_all add: run emit_def)
  qed
  show ?thesis
    using fail ok by (simp add: emit_def poll_offset_def)
qed

theorem offset_set_first_witness:
  "get_updates (demo_env\<lparr>get_updates := (\<lambda>offset. Inl RequestException)\<rparr>)
     (poll_offset demo_bot) = Inl RequestException \<and>
   process_telegram_updates (demo_env\<lparr>get_updates := (\<lambda>offset. Inl RequestException)\<rparr>)
     demo_bot = demo_bot\<lparr>trace := [Logged ''Error processing updates'' RequestException]\<rparr> \<and>
   get_updates demo_env (poll_offset demo_bot) = Inr (Some [help_update]) \<and>
   [help_update] \<noteq> [] \<and>
   last_update_id (process_telegram_updates demo_env demo_bot) = Some 7 \<and>
   prefix [OffsetSet 7] (trace (process_telegram_updates demo_env demo_bot))"
proof -
  have a: "get_updates (demo_env\<lparr>get_updates := (\<lambda>offset. Inl RequestException)\<rparr>)
             (poll_offset demo_bot) = Inl RequestException"
    by simp
  have b: "get_updates demo_env (poll_offset demo_bot) = Inr (Some [help_update])"
    by (simp add: demo_env_def)
  have f: "process_telegram_updates
             (demo_env\<lparr>get_updates := (\<lambda>offset. Inl RequestException)\<rparr>) demo_bot =
           emit (Logged ''Error processing updates'' RequestException) demo_bot"
    using offset_set_first
            [where env = "demo_env\<lparr>get_updates := (\<lambda>offset. Inl RequestException)\<rparr>"
               and s = demo_bot and e = RequestException, THEN conjunct1] a
    by blast
  have g: "last_update_id (process_telegram_updates demo_env demo_bot) =
             Some (Max (set (map update_id [help_update])))"
    "prefix (trace demo_bot @ [OffsetSet (Max (set (map update_id [help_update])))])
       (trace (process_telegram_updates demo_env demo_bot))"
    using offset_set_first
            [where env = demo_env and s = demo_bot and us = "[help_update]", THEN conjunct2] b
    by blast+
  have t: "trace demo_bot = []"
    by (simp add: demo_bot_def)
  have c2: "process_telegram_updates
              (demo_env\<lparr>get_updates := (\<lambda>offset. Inl RequestException)\<rparr>) demo_bot =
            demo_bot\<lparr>trace := [Logged ''Error processing updates'' RequestException]\<rparr>"
    by (simp add: f emit_def t)
  have c5: "last_update_id (process_telegram_updates demo_env demo_bot) = Some 7"
    using g(1) by (simp add: help_update_def)
  have c6: "prefix [OffsetSet 7] (trace (process_telegram_updates demo_env demo_bot))"
    using g(2) by (simp add: t help_update_def)
  show ?thesis
    using a b c2 c5 c6 by simp
qed






text \<open>
  C7 (the code departs from the claim). Of two new postings only the first is recorded:
  the run stops at the first call of the scorer (the defect of C1), so the second posting
  passes the filter and its identity never reaches the delivered list.
\<close>

theorem second_posting_never_recorded:
  "filter (\<lambda>j. job_id j \<notin> set (jobs_sent demo_profile)) [posting_a, posting_b] =
     [posting_a, posting_b] \<and>
   map_option jobs_sent (users (snd (send_jobs_to_user demo_env 42 demo_bot)) ''42'') =
     Some [job_id posting_a] \<and>
   job_id posting_b \<notin> set [job_id posting_a]"
  by (simp add: demo_run posting_a_def posting_b_def demo_profile_def default_profile_def)

text \<open>
  C8. The part of a run that follows the fetch behaves exactly as if the postings already
  in the delivered list had not been fetched: every scorer call and every match
  notification (the messages sent as Markdown) it adds to the trace is for a fetched
  posting whose identity was not in the list. When every fetched posting is in the list,
  the run sends the "no new job matches" message and nothing else, and changes nothing in
  the store.
\<close>

theorem already_delivered_skipped:
  "deliver_jobs c p jobs s =
     deliver_jobs c p (filter (\<lambda>j. job_id j \<notin> set (jobs_sent p)) jobs) s \<and>
   (\<forall>e \<in> set (trace (snd (deliver_jobs c p jobs s))).
      e \<in> set (trace s) \<or> e = Slept \<or> e = Saved \<or> (\<exists>txt. e = Sent c txt None) \<or>
      (\<exists>j \<in> set jobs. job_id j \<notin> set (jobs_sent p) \<and>
         (e = Scoring (job_id j) \<or>
          (\<exists>sc an. e = Sent c (match_msg j sc an) (Some ''Markdown''))))) \<and>
   ((\<forall>j \<in> set jobs. job_id j \<in> set (jobs_sent p)) \<longrightarrow>
      deliver_jobs c p jobs s = (Inr (), send_message c no_new_jobs_msg None s)) \<and>
   (users s (str_int c) = Some p \<and> is_active p \<and> resume p \<noteq> [] \<and>
    fst (scrape_jobs env (search_keywords p) (search_location p) s) = Inr jobs \<and>
    (\<forall>j \<in> set jobs. job_id j \<in> set (jobs_sent p)) \<longrightarrow>
      send_jobs_to_user env c s =
        (Inr (), send_message c no_new_jobs_msg None
                   (snd (scrape_jobs env (search_keywords p) (search_location p) s))))"
proof -
  have run: "send_jobs_to_user env c s =
        (Inr (), send_message c no_new_jobs_msg None
                   (snd (scrape_jobs env (search_keywords p) (search_location p) s)))"
    if h: "users s (str_int c) = Some p" "is_active p" "resume p \<noteq> []"
       "fst (scrape_jobs env (search_keywords p) (search_location p) s) = Inr jobs"
       "\<forall>j \<in> set jobs. job_id j \<in> set (jobs_sent p)"
  proof -
    obtain s1 where sc: "scrape_jobs env (search_keywords p) (search_location p) s = (Inr jobs, s1)"
      using h(4) by (cases "scrape_jobs env (search_keywords p) (search_location p) s") auto
    show ?thesis
      using h(1-3) deliver_jobs_none_new [OF h(5), of c s1]
      by (simp add: send_jobs_to_user_def sc)
  qed
  show ?thesis
    using deliver_jobs_filter [of c p jobs s] deliver_jobs_none_new [of jobs p c s]
          deliver_jobs_events [of _ c p jobs s] run
    by blast
qed

theorem already_delivered_skipped_witness:
  "users served_bot (str_int 42) = Some served_profile \<and> is_active served_profile \<and>
   resume served_profile \<noteq> [] \<and>
   fst (scrape_jobs demo_env (search_keywords served_profile) (search_location served_profile)
          served_bot) = Inr [posting_a, posting_b] \<and>
   job_id posting_a \<in> set (jobs_sent served_profile) \<and>
   job_id posting_b \<in> set (jobs_sent served_profile) \<and>
   send_jobs_to_user demo_env 42 served_bot =
     (Inr (), served_bot\<lparr>trace := [Slept, Logged ''Indeed scraping error'' RequestException,
                                    Sent 42 no_new_jobs_msg None]\<rparr>)"
proof -
  have u: "users served_bot (str_int 42) = Some served_profile"
    by (simp add: served_bot_def str_42)
  have p: "is_active served_profile" "resume served_profile \<noteq> []"
    "search_keywords served_profile = [''AI Engineer'']"
    by (simp_all add: served_profile_def demo_profile_def default_profile_def)
  have ids: "\<forall>j \<in> set [posting_a, posting_b]. job_id j \<in> set (jobs_sent served_profile)"
    by (simp add: served_profile_def posting_a_def posting_b_def)
  have sc: "fst (scrape_jobs demo_env (search_keywords served_profile)
                  (search_location served_profile) served_bot) = Inr [posting_a, posting_b]"
    by (simp add: p(3) demo_scrape)
  show ?thesis
    using already_delivered_skipped [of 42 served_profile "[posting_a, posting_b]" served_bot
            demo_env, THEN conjunct2, THEN conjunct2, THEN conjunct2] u p(1,2) ids sc
    by (simp add: p(3) demo_scrape send_message_def emit_def served_bot_def)
qed

text \<open>
  C9. \<open>scrape_jobs\<close> always returns a list, with at most ten postings of each source,
  and does not touch the store. A request of one source that raises is logged and leaves
  exactly the postings of the other source; an empty keyword list is logged for both
  sources and gives the empty list; of the cards of a page answered with status 200, the
  first ten are parsed, and each that fails to parse is logged and left out.
\<close>

theorem scrape_jobs_never_raises:
  "(\<exists>jobs. fst (scrape_jobs env kws loc s) = Inr jobs \<and>
      length (filter (\<lambda>j. source j = ''LinkedIn'') jobs) \<le> 10 \<and>
      length (filter (\<lambda>j. source j = ''Indeed'') jobs) \<le> 10) \<and>
   users (snd (scrape_jobs env kws loc s)) = users s \<and>
   fst (scrape_jobs (env\<lparr>linkedin_get := (\<lambda>url. Inl e)\<rparr>) kws loc s) =
     map_sum id (filter (\<lambda>j. source j = ''Indeed'')) (fst (scrape_jobs env kws loc s)) \<and>
   fst (scrape_jobs (env\<lparr>indeed_get := (\<lambda>url. Inl e)\<rparr>) kws loc s) =
     map_sum id (filter (\<lambda>j. source j = ''LinkedIn'')) (fst (scrape_jobs env kws loc s)) \<and>
   Logged ''LinkedIn scraping error'' e \<in>
     set (trace (snd (scrape_jobs (env\<lparr>linkedin_get := (\<lambda>url. Inl e)\<rparr>) (k # ks) loc s))) \<and>
   Logged ''Indeed scraping error'' e \<in>
     set (trace (snd (scrape_jobs (env\<lparr>indeed_get := (\<lambda>url. Inl e)\<rparr>) (k # ks) loc s))) \<and>
   scrape_jobs env [] loc s =
     (Inr [], emit (Logged ''Indeed scraping error'' IndexError)
                (emit (Logged ''LinkedIn scraping error'' IndexError) (emit Slept s))) \<and>
   (linkedin_get env (linkedin_url k loc) = Inr (200, cards) \<longrightarrow>
      map_sum id (filter (\<lambda>j. source j = ''LinkedIn'')) (fst (scrape_jobs env (k # ks) loc s)) =
        Inr (parsed_jobs (linkedin_job env) (take 10 cards))) \<and>
   (indeed_get env (indeed_url k loc) = Inr (200, cards') \<longrightarrow>
      map_sum id (filter (\<lambda>j. source j = ''Indeed'')) (fst (scrape_jobs env (k # ks) loc s)) =
        Inr (parsed_jobs (indeed_job env) (take 10 cards'))) \<and>
   (linkedin_get env (linkedin_url k loc) = Inr (200, cards) \<and> c \<in> set (take 10 cards) \<and>
    linkedin_job env c = Inl e1 \<longrightarrow>
      Logged ''LinkedIn parsing error'' e1 \<in>
        set (trace (snd (scrape_jobs env (k # ks) loc s)))) \<and>
   (indeed_get env (indeed_url k loc) = Inr (200, cards') \<and> c' \<in> set (take 10 cards') \<and>
    indeed_job env c' = Inl e2 \<longrightarrow>
      Logged ''Indeed parsing error'' e2 \<in>
        set (trace (snd (scrape_jobs env (k # ks) loc s))))"
proof -
  have bound: "\<exists>jobs. fst (scrape_jobs env kws loc s) = Inr jobs \<and>
      length (filter (\<lambda>j. source j = ''LinkedIn'') jobs) \<le> 10 \<and>
      length (filter (\<lambda>j. source j = ''Indeed'') jobs) \<le> 10"
    using linkedin_found_bound [of env kws loc] indeed_found_bound [of env kws loc]
    by (simp add: scrape_jobs_result found_sources)
  have users: "users (snd (scrape_jobs env kws loc s)) = users s"
    using scrape_jobs_state [of s s env kws loc] by simp
  have li_down: "fst (scrape_jobs (env\<lparr>linkedin_get := (\<lambda>url. Inl e)\<rparr>) kws loc s) =
     map_sum id (filter (\<lambda>j. source j = ''Indeed'')) (fst (scrape_jobs env kws loc s))"
    by (simp add: scrape_jobs_result found_sources found_failed)
  have in_down: "fst (scrape_jobs (env\<lparr>indeed_get := (\<lambda>url. Inl e)\<rparr>) kws loc s) =
     map_sum id (filter (\<lambda>j. source j = ''LinkedIn'')) (fst (scrape_jobs env kws loc s))"
    by (simp add: scrape_jobs_result found_sources found_failed)
  have li_cards: "map_sum id (filter (\<lambda>j. source j = ''LinkedIn''))
        (fst (scrape_jobs env (k # ks) loc s)) =
        Inr (parsed_jobs (linkedin_job env) (take 10 cards))"
    if "linkedin_get env (linkedin_url k loc) = Inr (200, cards)"
  proof -
    have eq: "linkedin_found env (k # ks) loc = parsed_jobs (linkedin_job env) (take 10 cards)"
      using that by (simp add: linkedin_found_def)
    have "map_sum id (filter (\<lambda>j. source j = ''LinkedIn''))
            (fst (scrape_jobs env (k # ks) loc s)) = Inr (linkedin_found env (k # ks) loc)"
      by (simp add: scrape_jobs_result found_sources)
    then show ?thesis
      by (simp only: eq)
  qed
  have in_cards: "map_sum id (filter (\<lambda>j. source j = ''Indeed''))
        (fst (scrape_jobs env (k # ks) loc s)) =
        Inr (parsed_jobs (indeed_job env) (take 10 cards'))"
    if "indeed_get env (indeed_url k loc) = Inr (200, cards')"
  proof -
    have eq: "indeed_found env (k # ks) loc = parsed_jobs (indeed_job env) (take 10 cards')"
      using that by (simp add: indeed_found_def)
    have "map_sum id (filter (\<lambda>j. source j = ''Indeed''))
            (fst (scrape_jobs env (k # ks) loc s)) = Inr (indeed_found env (k # ks) loc)"
      by (simp add: scrape_jobs_result found_sources)
    then show ?thesis
      by (simp only: eq)
  qed
  show ?thesis
    using bound users li_down in_down li_cards in_cards
          linkedin_failure_logged [of e env k ks loc s]
          indeed_failure_logged [of e env k ks loc s] no_keywords [of env loc s]
          linkedin_record_logged [of env k loc cards c e1 ks s]
          indeed_record_logged [of env k loc cards' c' e2 ks s]
    by blast
qed

theorem scrape_jobs_never_raises_witness:
  "linkedin_get demo_env (linkedin_url ''AI Engineer'' ''India'') = Inr (200, [card_a, card_b]) \<and>
   fst (scrape_jobs demo_env [''AI Engineer''] ''India'' demo_bot) = Inr [posting_a, posting_b] \<and>
   parsed_jobs (linkedin_job demo_env) (take 10 [card_a, card_b]) = [posting_a, posting_b] \<and>
   indeed_get (demo_env\<lparr>indeed_get := (\<lambda>url. Inr (200, []))\<rparr>)
     (indeed_url ''AI Engineer'' ''India'') = Inr (200, []) \<and>
   map_sum id (filter (\<lambda>j. source j = ''Indeed''))
     (fst (scrape_jobs (demo_env\<lparr>indeed_get := (\<lambda>url. Inr (200, []))\<rparr>)
             [''AI Engineer''] ''India'' demo_bot)) = Inr [] \<and>
   linkedin_job demo_env (card_a\<lparr>li_h3 := None\<rparr>) = Inl AttributeError \<and>
   Logged ''LinkedIn parsing error'' AttributeError \<in>
     set (trace (snd (scrape_jobs
            (demo_env\<lparr>linkedin_get := (\<lambda>url. Inr (200, [card_a\<lparr>li_h3 := None\<rparr>]))\<rparr>)
            [''AI Engineer''] ''India'' demo_bot)))"
proof -
  have g: "linkedin_get demo_env (linkedin_url ''AI Engineer'' ''India'') =
             Inr (200, [card_a, card_b])"
    by (simp add: demo_env_def)
  have h: "indeed_get (demo_env\<lparr>indeed_get := (\<lambda>url. Inr (200, []))\<rparr>)
             (indeed_url ''AI Engineer'' ''India'') = Inr (200, [])"
    by simp
  have f: "map_sum id (filter (\<lambda>j. source j = ''LinkedIn''))
             (Inr [posting_a, posting_b] :: error + job list) = Inr [posting_a, posting_b]"
    by (simp add: posting_a_def posting_b_def)
  have bad: "linkedin_job
               (demo_env\<lparr>linkedin_get := (\<lambda>url. Inr (200, [card_a\<lparr>li_h3 := None\<rparr>]))\<rparr>)
               (card_a\<lparr>li_h3 := None\<rparr>) = Inl AttributeError"
    "linkedin_job demo_env (card_a\<lparr>li_h3 := None\<rparr>) = Inl AttributeError"
    by (simp_all add: linkedin_job_def)
  have logged: "Logged ''LinkedIn parsing error'' AttributeError \<in>
     set (trace (snd (scrape_jobs
            (demo_env\<lparr>linkedin_get := (\<lambda>url. Inr (200, [card_a\<lparr>li_h3 := None\<rparr>]))\<rparr>)
            [''AI Engineer''] ''India'' demo_bot)))"
    using scrape_jobs_never_raises
            [where env = "demo_env\<lparr>linkedin_get := (\<lambda>url. Inr (200, [card_a\<lparr>li_h3 := None\<rparr>]))\<rparr>"
               and s = demo_bot and k = "''AI Engineer''" and ks = "[]" and loc = "''India''"
               and cards = "[card_a\<lparr>li_h3 := None\<rparr>]" and c = "card_a\<lparr>li_h3 := None\<rparr>"
               and ?e1.0 = AttributeError,
             THEN conjunct2, THEN conjunct2, THEN conjunct2, THEN conjunct2, THEN conjunct2,
             THEN conjunct2, THEN conjunct2, THEN conjunct2, THEN conjunct2, THEN conjunct1]
          bad(1)
    by simp
  show ?thesis
    using scrape_jobs_never_raises
            [where env = demo_env and s = demo_bot and k = "''AI Engineer''" and ks = "[]"
               and loc = "''India''" and cards = "[card_a, card_b]",
             THEN conjunct2, THEN conjunct2, THEN conjunct2, THEN conjunct2, THEN conjunct2,
             THEN conjunct2, THEN conjunct2, THEN conjunct1]
          scrape_jobs_never_raises
            [where env = "demo_env\<lparr>indeed_get := (\<lambda>url. Inr (200, []))\<rparr>" and s = demo_bot
               and k = "''AI Engineer''" and ks = "[]" and loc = "''India''" and cards' = "[]",
             THEN conjunct2, THEN conjunct2, THEN conjunct2, THEN conjunct2, THEN conjunct2,
             THEN conjunct2, THEN conjunct2, THEN conjunct2, THEN conjunct1]
          g h f bad(2) logged
    by (simp add: demo_scrape parsed_jobs_def)
qed

text \<open>
  C10. On an id that is not in the store, \<open>set_resume\<close> and \<open>set_search_preferences\<close>
  return False and leave the whole state as it was (no profile touched, no file write);
  on an id that is already in the store, \<open>register_user\<close> returns False and leaves the
  whole state, and so that user's resume, preferences and delivered list, as it was.
\<close>

theorem store_unknown_id_noop:
  "(users s (str_int chat_id) = None \<longrightarrow>
      set_resume now chat_id resume_text s = (False, s) \<and>
      set_search_preferences now chat_id kw loc ms nt s = (False, s)) \<and>
   (users s (str_int chat_id) = Some p \<longrightarrow>
      register_user now chat_id s = (False, s) \<and>
      users (snd (register_user now chat_id s)) (str_int chat_id) = Some p)"
  by (simp add: set_resume_def set_search_preferences_def register_user_def)

theorem store_unknown_id_noop_witness:
  "users \<lparr>users = Map.empty, last_update_id = None, trace = []\<rparr> (str_int 7) = None \<and>
   set_resume ''t1'' 7 ''cv'' \<lparr>users = Map.empty, last_update_id = None, trace = []\<rparr> =
     (False, \<lparr>users = Map.empty, last_update_id = None, trace = []\<rparr>) \<and>
   set_search_preferences ''t1'' 7 (Some [''ML'']) None (Some 80) None
       \<lparr>users = Map.empty, last_update_id = None, trace = []\<rparr> =
     (False, \<lparr>users = Map.empty, last_update_id = None, trace = []\<rparr>) \<and>
   users \<lparr>users = [''7'' \<mapsto> default_profile ''t0''], last_update_id = None, trace = []\<rparr>
       (str_int 7) = Some (default_profile ''t0'') \<and>
   register_user ''t1'' 7
       \<lparr>users = [''7'' \<mapsto> default_profile ''t0''], last_update_id = None, trace = []\<rparr> =
     (False, \<lparr>users = [''7'' \<mapsto> default_profile ''t0''], last_update_id = None, trace = []\<rparr>)"
proof -
  have k: "str_int 7 = ''7''"
    by code_simp
  show ?thesis
    using store_unknown_id_noop
            [where s = "\<lparr>users = Map.empty, last_update_id = None, trace = []\<rparr>"
               and chat_id = 7 and now = "''t1''" and resume_text = "''cv''"
               and kw = "Some [''ML'']" and loc = None and ms = "Some 80" and nt = None]
          store_unknown_id_noop
            [where s = "\<lparr>users = [''7'' \<mapsto> default_profile ''t0''],
                         last_update_id = None, trace = []\<rparr>"
               and chat_id = 7 and now = "''t1''" and p = "default_profile ''t0''"]
    by (simp add: k)
qed

end
